theory Spec2Isabelle
  imports Main "HOL-Library.Char_ord" "HOL-Library.List_Lexorder"
begin

section \<open>Event bus (src/bus.js)\<close>

text \<open>
  JavaScript objects are compared by identity. A callback function and a subscription
  object are therefore referred to by a reference number. The bus allocates the
  reference of each subscription object it creates from \<open>next_ref\<close>.
\<close>

type_synonym cbref = nat

record subscription =
  sub_ref :: nat
  sub_type :: string
  sub_cb :: cbref

record 'p payload =
  p_type :: string
  p_properties :: 'p
  p_sourceID :: string

text \<open>
  The closure of \<open>useBus\<close>: the \<open>subscriptions\<close> object (event type to array of
  subscriptions), the \<open>sourceID\<close> drawn once, and the payloads whose JSON text was
  handed to \<open>Logger.debug\<close>.
\<close>

record 'p bus =
  sourceID :: string
  subscriptions :: "string \<rightharpoonup> subscription list"
  next_ref :: nat
  debug_log :: "'p payload list"

text \<open>
  What the bus can throw: the exception of a callback; the \<open>TypeError\<close> of
  \<open>JSON.stringify\<close> for a payload it cannot write (a cyclic object, a
  \<open>BigInt\<close>); and the \<open>TypeError\<close> for an event type under which the
  \<open>subscriptions\<close> object finds something that is no array.
\<close>

datatype bus_error = CallbackThrew string | NotSerialisable | NotAnArray string

definition DO_NOT_LOG :: "string set" where
  "DO_NOT_LOG = {''stacks.metadata''}"

text \<open>
  \<open>useBus\<close> builds the bus once (\<open>lazy\<close>); \<open>randomHex\<close> stands for
  \<open>crypto.randomBytes(16).toString("hex")\<close>.
\<close>

definition useBus :: "string \<Rightarrow> 'p bus" where
  "useBus randomHex =
     \<lparr>sourceID = randomHex, subscriptions = Map.empty, next_ref = 0, debug_log = []\<rparr>"

text \<open>
  \<open>subscriptions\<close> is an object literal \<open>{}\<close>, so \<open>subscriptions[type]\<close> finds
  the members of \<open>Object.prototype\<close> under their names. Each of them is truthy,
  so \<open>subscribers\<close> returns it as if it were the array of the type.
\<close>

definition objectPrototypeMembers :: "string list" where
  "objectPrototypeMembers =
     [''constructor'', ''__defineGetter__'', ''__defineSetter__'', ''hasOwnProperty'',
      ''__lookupGetter__'', ''__lookupSetter__'', ''isPrototypeOf'', ''propertyIsEnumerable'',
      ''toString'', ''valueOf'', ''__proto__'', ''toLocaleString'']"

text \<open>
  \<open>subscribers(type)\<close> creates the empty array on first use and returns the array;
  \<open>None\<close> is the member of \<open>Object.prototype\<close> it returns for the name of one.
\<close>

definition subscribers :: "string \<Rightarrow> 'p bus \<Rightarrow> subscription list option \<times> 'p bus" where
  "subscribers ty b =
     (if ty \<in> set objectPrototypeMembers then (None, b)
      else
        (case subscriptions b ty of
           Some arr \<Rightarrow> (Some arr, b)
         | None \<Rightarrow> (Some [], b\<lparr>subscriptions := (subscriptions b)(ty \<mapsto> [])\<rparr>)))"

text \<open>The array stored for a type, as the running \<open>for ... of\<close> loop reads it.\<close>

definition live_array :: "'p bus \<Rightarrow> string \<Rightarrow> subscription list" where
  "live_array b ty = (case subscriptions b ty of Some arr \<Rightarrow> arr | None \<Rightarrow> [])"

text \<open>\<open>subscribe\<close> throws when what it is to \<open>push\<close> to is no array.\<close>

definition subscribe ::
  "string \<Rightarrow> cbref \<Rightarrow> 'p bus \<Rightarrow> bus_error + subscription \<times> 'p bus" where
  "subscribe ty cb b =
     (let sub = \<lparr>sub_ref = next_ref b, sub_type = ty, sub_cb = cb\<rparr>;
          b0 = b\<lparr>next_ref := Suc (next_ref b)\<rparr>
      in case subscribers ty b0 of
           (None, b1) \<Rightarrow> Inl (NotAnArray ty)
         | (Some arr, b1) \<Rightarrow>
             Inr (sub, b1\<lparr>subscriptions := (subscriptions b1)(ty \<mapsto> arr @ [sub])\<rparr>))"

text \<open>\<open>arr.indexOf(sub)\<close>: the first position holding that very object.\<close>

fun indexOf :: "subscription list \<Rightarrow> nat \<Rightarrow> nat option" where
  "indexOf [] r = None"
| "indexOf (s # ss) r =
     (if sub_ref s = r then Some 0 else map_option Suc (indexOf ss r))"

definition unsubscribe :: "subscription \<Rightarrow> 'p bus \<Rightarrow> bus_error + 'p bus" where
  "unsubscribe sub b =
     (case subscribers (sub_type sub) b of
        (None, b1) \<Rightarrow> Inl (NotAnArray (sub_type sub))
      | (Some arr, b1) \<Rightarrow>
          (case indexOf arr (sub_ref sub) of
             None \<Rightarrow> Inr b1
           | Some i \<Rightarrow>
               Inr (b1\<lparr>subscriptions :=
                         (subscriptions b1)(sub_type sub \<mapsto> take i arr @ drop (Suc i) arr)\<rparr>)))"

text \<open>\<open>forward(..._types)\<close> returns a function that subscribes.\<close>

definition forward ::
  "string list \<Rightarrow> string \<Rightarrow> cbref \<Rightarrow> 'p bus \<Rightarrow> bus_error + subscription \<times> 'p bus" where
  "forward types = (\<lambda>ty cb. subscribe ty cb)"

text \<open>
  \<open>publish\<close> calls \<open>sub.cb(payload)\<close> for each element of the array, which it reads
  by position while the callbacks run (\<open>for (const sub of subscribers(type))\<close>).
  What a callback does is given by \<open>run\<close>: the bus it leaves behind, or the exception
  it throws, which ends the loop. The loop returns the calls it made, in order; it
  has no value (\<open>None\<close>) when it never ends.
\<close>

partial_function (option) deliver ::
  "(cbref \<Rightarrow> 'p payload \<Rightarrow> 'p bus \<Rightarrow> bus_error + 'p bus) \<Rightarrow> string \<Rightarrow> 'p payload \<Rightarrow> nat \<Rightarrow>
   'p bus \<Rightarrow> (cbref \<times> 'p payload) list \<Rightarrow>
   ((cbref \<times> 'p payload) list \<times> (bus_error + 'p bus)) option" where
  "deliver run ty pl i b calls =
     (if i < length (live_array b ty) then
        (case run (sub_cb (live_array b ty ! i)) pl b of
           Inl e \<Rightarrow> Some (calls @ [(sub_cb (live_array b ty ! i), pl)], Inl e)
         | Inr b' \<Rightarrow>
             deliver run ty pl (Suc i) b' (calls @ [(sub_cb (live_array b ty ! i), pl)]))
      else Some (calls, Inr b))"

text \<open>
  \<open>publish\<close>. Unless the type is in \<open>DO_NOT_LOG\<close>, the payload is first written
  with \<open>JSON.stringify\<close> for the logger: \<open>stringify\<close> gives the text, or \<open>None\<close>
  when \<open>JSON.stringify\<close> throws, and then no subscriber is called. The loop
  throws at once when what it is to iterate is no array.
\<close>

definition publish ::
  "(cbref \<Rightarrow> 'p payload \<Rightarrow> 'p bus \<Rightarrow> bus_error + 'p bus) \<Rightarrow> ('p payload \<Rightarrow> string option) \<Rightarrow>
   string \<Rightarrow> 'p \<Rightarrow> 'p bus \<Rightarrow> ((cbref \<times> 'p payload) list \<times> (bus_error + 'p bus)) option" where
  "publish run stringify ty props b =
     (let pl = \<lparr>p_type = ty, p_properties = props, p_sourceID = sourceID b\<rparr>
      in if ty \<notin> DO_NOT_LOG \<and> stringify pl = None then Some ([], Inl NotSerialisable)
         else
           (let b0 = (if ty \<notin> DO_NOT_LOG then b\<lparr>debug_log := debug_log b @ [pl]\<rparr> else b)
            in case subscribers ty b0 of
                 (None, b1) \<Rightarrow> Some ([], Inl (NotAnArray ty))
               | (Some arr, b1) \<Rightarrow> deliver run ty pl 0 b1 []))"

section \<open>Functional stacks (src/constructs/FunctionalStack.js)\<close>

text \<open>
  Applications and stack definition functions are objects compared by identity (they
  are keys of a \<open>Map\<close>), so they are reference numbers here.
\<close>

type_synonym appref = nat
type_synonym fnref = nat

text \<open>
  What a stack function returns. \<open>JObj\<close> is an object without a \<open>then\<close> property,
  \<open>JPromise v\<close> a promise that is fulfilled with \<open>v\<close>.
\<close>

datatype jsval =
    JUndefined
  | JNull
  | JBool bool
  | JNum int
  | JStr string
  | JObj nat
  | JPromise jsval

fun truthy :: "jsval \<Rightarrow> bool" where
  "truthy JUndefined = False"
| "truthy JNull = False"
| "truthy (JBool b) = b"
| "truthy (JNum n) = (n \<noteq> 0)"
| "truthy (JStr s) = (s \<noteq> [])"
| "truthy (JObj r) = True"
| "truthy (JPromise v) = True"

text \<open>The operator \<open>in\<close> throws a \<open>TypeError\<close> unless its right operand is an object.\<close>

fun isObject :: "jsval \<Rightarrow> bool" where
  "isObject (JObj r) = True"
| "isObject (JPromise v) = True"
| "isObject v = False"

datatype stack_error =
    StackDuplicates string
  | StackWrongOrder string "string option"
  | NoAppIsSet
  | TypeError
  | Thrown string

record stack_props =
  props_id :: "string option"

record stack_handle =
  stack_scope :: appref
  stack_id :: string
  stack_props :: "stack_props option"

text \<open>
  The module state: \<open>currentApp\<close>, \<open>currentStack\<close>, \<open>exportsCache\<close> and
  \<open>stackCache\<close>. \<open>pending\<close> holds the \<open>then\<close> callbacks of the promises that
  stack functions returned and that are not fulfilled yet: each will store \<open>data\<close>
  for \<open>fn\<close> in the exports of \<open>app\<close>.
\<close>

record registry =
  currentApp :: "appref option"
  currentStack :: "fnref option"
  exportsCache :: "appref \<rightharpoonup> (fnref \<rightharpoonup> jsval)"
  stackCache :: "appref \<rightharpoonup> (fnref \<rightharpoonup> stack_handle)"
  pending :: "(appref \<times> fnref \<times> jsval) list"

definition initial_registry :: registry where
  "initial_registry =
     \<lparr>currentApp = None, currentStack = None, exportsCache = Map.empty,
      stackCache = Map.empty, pending = []\<rparr>"

text \<open>
  A stack definition function: its \<open>name\<close> and what a call of it returns or throws,
  given the context \<open>{app, stack}\<close> and the module state it can read through \<open>use\<close>.
\<close>

record fndef =
  fn_name :: string
  fn_body :: "appref \<Rightarrow> stack_handle \<Rightarrow> registry \<Rightarrow> stack_error + jsval"

datatype stack_result = ReturnsApp appref | ReturnsPromise

definition getExports :: "appref \<Rightarrow> registry \<Rightarrow> (fnref \<rightharpoonup> jsval) \<times> registry" where
  "getExports app r =
     (case exportsCache r app of
        Some m \<Rightarrow> (m, r)
      | None \<Rightarrow> (Map.empty, r\<lparr>exportsCache := (exportsCache r)(app \<mapsto> Map.empty)\<rparr>))"

definition getStacks :: "appref \<Rightarrow> registry \<Rightarrow> (fnref \<rightharpoonup> stack_handle) \<times> registry" where
  "getStacks app r =
     (case stackCache r app of
        Some m \<Rightarrow> (m, r)
      | None \<Rightarrow> (Map.empty, r\<lparr>stackCache := (stackCache r)(app \<mapsto> Map.empty)\<rparr>))"

text \<open>\<open>getExports(app).set(fn, data)\<close>\<close>

definition setExport :: "appref \<Rightarrow> fnref \<Rightarrow> jsval \<Rightarrow> registry \<Rightarrow> registry" where
  "setExport app fn data r =
     (let (m, r1) = getExports app r
      in r1\<lparr>exportsCache := (exportsCache r1)(app \<mapsto> m(fn \<mapsto> data))\<rparr>)"

text \<open>\<open>getStacks(app).set(fn, stack)\<close>\<close>

definition setStack :: "appref \<Rightarrow> fnref \<Rightarrow> stack_handle \<Rightarrow> registry \<Rightarrow> registry" where
  "setStack app fn st r =
     (let (m, r1) = getStacks app r
      in r1\<lparr>stackCache := (stackCache r1)(app \<mapsto> m(fn \<mapsto> st))\<rparr>)"

text \<open>
  \<open>stack(app, fn, props)\<close>, with \<open>stackId\<close> for \<open>props?.id || fn.name\<close>. The
  class \<open>Stack\<close> is not part of these sources:
  \<open>newStack\<close> stands for \<open>new EmptyStack(app, id, props)\<close>, which returns the
  stack or throws. \<open>defs\<close> gives the function behind each reference.
\<close>

definition stackId :: "(fnref \<Rightarrow> fndef) \<Rightarrow> fnref \<Rightarrow> stack_props option \<Rightarrow> string" where
  "stackId defs fn props =
     (case props of
        None \<Rightarrow> fn_name (defs fn)
      | Some p \<Rightarrow>
          (case props_id p of
             None \<Rightarrow> fn_name (defs fn)
           | Some i \<Rightarrow> if i = [] then fn_name (defs fn) else i))"

definition stack ::
  "(fnref \<Rightarrow> fndef) \<Rightarrow> (appref \<Rightarrow> string \<Rightarrow> stack_props option \<Rightarrow> stack_error + stack_handle) \<Rightarrow>
   appref \<Rightarrow> fnref \<Rightarrow> stack_props option \<Rightarrow> registry \<Rightarrow> (stack_error + stack_result) \<times> registry" where
  "stack defs newStack app fn props r =
     (let r1 = r\<lparr>currentApp := Some app, currentStack := Some fn\<rparr>;
          ident = stackId defs fn props;
          (exports, r2) = getExports app r1
      in if exports fn \<noteq> None then (Inl (StackDuplicates ident), r2)
         else
           (case newStack app ident props of
              Inl e \<Rightarrow> (Inl e, r2)
            | Inr st \<Rightarrow>
                (let r3 = setStack app fn st r2
                 in case fn_body (defs fn) app st r3 of
                      Inl e \<Rightarrow> (Inl e, r3)
                    | Inr returns \<Rightarrow>
                        if truthy returns \<and> \<not> isObject returns then (Inl TypeError, r3)
                        else
                          (case returns of
                             JPromise data \<Rightarrow>
                               (Inr ReturnsPromise, r3\<lparr>pending := pending r3 @ [(app, fn, data)]\<rparr>)
                           | _ \<Rightarrow> (Inr (ReturnsApp app), setExport app fn returns r3)))))"

text \<open>
  The promise of the \<open>k\<close>-th pending registration is fulfilled: its \<open>then\<close> callback
  runs \<open>getExports(app).set(fn, data)\<close>.
\<close>

definition fulfil :: "nat \<Rightarrow> registry \<Rightarrow> registry" where
  "fulfil k r =
     (if k < length (pending r) then
        (case pending r ! k of
           (app, fn, data) \<Rightarrow>
             setExport app fn data (r\<lparr>pending := take k (pending r) @ drop (Suc k) (pending r)\<rparr>))
      else r)"

definition use :: "(fnref \<Rightarrow> fndef) \<Rightarrow> fnref \<Rightarrow> registry \<Rightarrow> (stack_error + jsval) \<times> registry" where
  "use defs fn r =
     (case currentApp r of
        None \<Rightarrow> (Inl NoAppIsSet, r)
      | Some app \<Rightarrow>
          (let (exports, r1) = getExports app r
           in case exports fn of
                None \<Rightarrow>
                  (Inl (StackWrongOrder (fn_name (defs fn))
                          (map_option (\<lambda>c. fn_name (defs c)) (currentStack r))), r1)
              | Some v \<Rightarrow> (Inr v, r1)))"

definition getStack ::
  "(fnref \<Rightarrow> fndef) \<Rightarrow> fnref \<Rightarrow> registry \<Rightarrow> (stack_error + stack_handle) \<times> registry" where
  "getStack defs fn r =
     (case currentApp r of
        None \<Rightarrow> (Inl NoAppIsSet, r)
      | Some app \<Rightarrow>
          (let (stacks, r1) = getStacks app r
           in case stacks fn of
                None \<Rightarrow>
                  (Inl (StackWrongOrder (fn_name (defs fn))
                          (map_option (\<lambda>c. fn_name (defs c)) (currentStack r))), r1)
              | Some st \<Rightarrow> (Inr st, r1)))"

text \<open>What \<open>getExports(app).get(fn)\<close> finds: \<open>None\<close> when \<open>has(fn)\<close> is false.\<close>

definition exported :: "registry \<Rightarrow> appref \<Rightarrow> fnref \<Rightarrow> jsval option" where
  "exported r app fn = fst (getExports app r) fn"

section \<open>Sites (src/constructs/BaseSite.js, SsrSite.js and the StaticSite class)\<close>

subsection \<open>Strings, paths and files\<close>

text \<open>A number inside a template string, such as \<open>part${partId}.zip\<close>: its decimal digits.\<close>

definition digit :: "nat \<Rightarrow> char" where
  "digit d = ''0123456789'' ! (d mod 10)"

fun showNat :: "nat \<Rightarrow> string" where
  "showNat n = (if n < 10 then [digit n] else showNat (n div 10) @ [digit n])"

declare showNat.simps [simp del]

text \<open>
  \<open>path.join\<close> and \<open>path.resolve\<close> of a directory and a name below it. The file
  system is looked up under the very string this gives, so the normalisation Node
  applies to a path plays no role.
\<close>

definition path_join :: "string \<Rightarrow> string \<Rightarrow> string" where
  "path_join dir name = dir @ ''/'' @ name"

text \<open>
  A file with its contents, or a directory with its entries in the order
  \<open>readdir\<close> lists them. The file system gives what is found at a path.
\<close>

datatype fsnode = File string | Dir "(string \<times> fsnode) list"

type_synonym filesystem = "string \<Rightarrow> fsnode option"

definition existsSync :: "filesystem \<Rightarrow> string \<Rightarrow> bool" where
  "existsSync fs p = (fs p \<noteq> None)"

definition isDirectory :: "filesystem \<Rightarrow> string \<Rightarrow> bool" where
  "isDirectory fs p = (case fs p of Some (Dir es) \<Rightarrow> True | _ \<Rightarrow> False)"

definition readdirSync :: "filesystem \<Rightarrow> string \<Rightarrow> string list option" where
  "readdirSync fs p = (case fs p of Some (Dir es) \<Rightarrow> Some (map fst es) | _ \<Rightarrow> None)"

text \<open>\<open>fs.rmSync(dir, {recursive: true, force: true})\<close>\<close>

definition rmSync :: "string \<Rightarrow> filesystem \<Rightarrow> filesystem" where
  "rmSync dir fs =
     (\<lambda>p. if p = dir \<or> take (length dir + 1) p = dir @ ''/'' then None else fs p)"

text \<open>
  \<open>glob.sync("**", {dot: true, nodir: true, follow: true, cwd})\<close>: the paths,
  relative to \<open>cwd\<close>, of the files below it, directories left out. The library
  is not part of these sources. It walks the tree in the order of \<open>readdir\<close>,
  keeps each match once, and sorts the matches with the comparison
  \<open>localeCompare\<close> of two strings, by a sort that leaves in place the matches
  that compare as equal. \<open>key\<close> stands for that comparison: two paths compare
  as their keys do, and two paths that it takes for equal have the same key.
\<close>

definition rel :: "string \<Rightarrow> string \<Rightarrow> string" where
  "rel prefix name = (if prefix = [] then name else prefix @ ''/'' @ name)"

fun walk :: "string \<Rightarrow> fsnode \<Rightarrow> string list"
  and walks :: "string \<Rightarrow> (string \<times> fsnode) list \<Rightarrow> string list" where
  "walk p (File c) = [p]"
| "walk p (Dir es) = walks p es"
| "walks p [] = []"
| "walks p (e # es) = walk (rel p (fst e)) (snd e) @ walks p es"

text \<open>The set of those paths: what the files below \<open>cwd\<close> are called, not what they hold.\<close>

definition relativeFilePaths :: "filesystem \<Rightarrow> string \<Rightarrow> string set" where
  "relativeFilePaths fs cwd =
     (case fs cwd of
        Some (Dir es) \<Rightarrow> set (walks [] es)
      | _ \<Rightarrow> {})"

definition glob_sync :: "(string \<Rightarrow> string) \<Rightarrow> filesystem \<Rightarrow> string \<Rightarrow> string list" where
  "glob_sync key fs cwd =
     (case fs cwd of
        Some (Dir es) \<Rightarrow> sort_key key (rev (remdups (rev (walks [] es))))
      | _ \<Rightarrow> [])"

subsection \<open>BaseSite.js\<close>

text \<open>
  An object with string values, such as \<open>props.environment\<close>, is the list of its
  entries in the order of \<open>Object.entries\<close>; the object that a function builds key by
  key is a map. \<open>isUnresolved\<close> stands for \<open>Token.isUnresolved\<close>.
\<close>

definition placeholder :: "string \<Rightarrow> string" where
  "placeholder key = ''{{ '' @ key @ '' }}''"

definition getBuildCmdEnvironment ::
  "(string \<Rightarrow> bool) \<Rightarrow> (string \<times> string) list option \<Rightarrow> (string \<rightharpoonup> string)" where
  "getBuildCmdEnvironment isUnresolved siteEnvironment =
     fold (\<lambda>(key, v) buildCmdEnvironment.
             buildCmdEnvironment(key \<mapsto> (if isUnresolved v then placeholder key else v)))
          (case siteEnvironment of None \<Rightarrow> [] | Some e \<Rightarrow> e)
          Map.empty"

subsection \<open>Props, the application and what lies outside the sources\<close>

record dev_props =
  dev_deploy :: "bool option"
  dev_url :: "string option"

text \<open>\<open>timeout?: number | Duration\<close>: seconds, or a string such as \<open>"10 seconds"\<close>.\<close>

datatype timeout = Seconds int | Duration string

text \<open>A file option; \<open>exclude\<close> and \<open>include\<close> are a string or an array of strings.\<close>

record file_option =
  fo_exclude :: "string list"
  fo_include :: "string list"
  fo_cacheControl :: string
  fo_contentType :: "string option"

record replace_value =
  rv_files :: string
  rv_search :: string
  rv_replace :: string

text \<open>
  The props of a site, each field absent (\<open>None\<close>) or given. \<open>timeout\<close>, \<open>edge\<close>,
  \<open>warm\<close> and \<open>enableServerUrlIamAuth\<close> are read by SsrSite only, the fields from
  \<open>buildOutput\<close> on by StaticSite only: \<open>viteTypes\<close> is \<open>vite.types\<close>,
  \<open>customDomain\<close> the domain name, and the last two are the fields of that name
  of \<open>cdk.bucket\<close>. \<open>importedBucket\<close> says that \<open>cdk.bucket\<close> is a construct,
  \<open>importedDistribution\<close> that \<open>cdk.distribution\<close> is one.
\<close>

record site_props =
  path :: "string option"
  timeout :: "timeout option"
  edge :: "bool option"
  dev :: "dev_props option"
  environment :: "(string \<times> string) list option"
  buildCommand :: "string option"
  warm :: "nat option"
  fileOptions :: "file_option list option"
  sstTestFileSizeLimitOverride :: "nat option"
  enableServerUrlIamAuth :: bool
  importedBucket :: bool
  importedDistribution :: bool
  buildOutput :: "string option"
  replaceValues :: "replace_value list option"
  purgeFiles :: "bool option"
  viteTypes :: "string option"
  customDomain :: "string option"
  websiteIndexDocument :: "string option"
  websiteErrorDocument :: "string option"

text \<open>The defaults that the constructor of SsrSite puts under the props.\<close>

definition the_path :: "site_props \<Rightarrow> string" where
  "the_path p = (case path p of None \<Rightarrow> ''.'' | Some x \<Rightarrow> x)"

definition the_timeout :: "site_props \<Rightarrow> timeout" where
  "the_timeout p = (case timeout p of None \<Rightarrow> Duration ''10 seconds'' | Some t \<Rightarrow> t)"

text \<open>\<open>props.dev?.deploy\<close> and \<open>props.dev?.url\<close>\<close>

definition devDeploy :: "site_props \<Rightarrow> bool option" where
  "devDeploy p = (case dev p of None \<Rightarrow> None | Some d \<Rightarrow> dev_deploy d)"

definition devUrl :: "site_props \<Rightarrow> string option" where
  "devUrl p = (case dev p of None \<Rightarrow> None | Some d \<Rightarrow> dev_url d)"

text \<open>A boolean prop used as a condition: absent counts as false.\<close>

definition is_true :: "bool option \<Rightarrow> bool" where
  "is_true b = (b = Some True)"

record build_config =
  typesPath :: string
  serverBuildOutputFile :: string
  clientBuildOutputDir :: string
  clientBuildVersionedSubDir :: string
  clientBuildS3KeyPrefix :: "string option"
  prerenderedBuildOutputDir :: "string option"
  prerenderedBuildS3KeyPrefix :: "string option"

definition initBuildConfig :: build_config where
  "initBuildConfig =
     \<lparr>typesPath = ''.'', serverBuildOutputFile = ''placeholder'',
      clientBuildOutputDir = ''placeholder'', clientBuildVersionedSubDir = ''placeholder'',
      clientBuildS3KeyPrefix = None, prerenderedBuildOutputDir = None,
      prerenderedBuildS3KeyPrefix = None\<rparr>"

record app_ctx =
  mode :: string
  isRunningSSTTest :: bool
  artifacts :: string
  region :: string
  account :: string

record cdk_stack =
  isActive :: bool
  stackName :: string
  partition :: string

text \<open>
  The errors that a site throws: those of its own \<open>throw\<close> statements, the
  error of \<open>fs.writeFileSync\<close> for a path whose directory does not exist, the
  error of \<open>bucket.grantReadWrite\<close> for a server function that has no role, and
  what the CDK library throws for a construct it rejects.
\<close>

datatype site_error =
    NoSiteFound string
  | TimeoutTooLong bool
  | NoPackageJson string
  | NoBuildScript string
  | BuildProblem string
  | NoServerBuildOutput string
  | AssetsPackageProblem
  | WarmingOnlyRegional string
  | NoSuchDirectory string
  | NoBuildOutput string
  | StaticPackageProblem string
  | NoPathFound string
  | StaticBuildProblem string
  | DoNotConfigure string
  | WriteFailed string
  | ServerHasNoRole
  | CdkProblem string

text \<open>
  What the classes call and these sources do not hold: the CDK token test, the
  conversion of a duration string to seconds (\<open>toCdkDuration(t).toSeconds()\<close>),
  the hash functions, the key of the comparison by which \<open>glob\<close> sorts, the
  process environment, the build command run by
  \<open>execSync\<close> (the files it leaves, or \<open>None\<close> when it fails), the archiver script
  run by \<open>spawn.sync\<close> (its exit status and the files it leaves), the test for a
  \<open>build\<close> script in \<open>package.json\<close>, the hash CDK gives an asset, the text of the
  types file, the parameter path of a binding and the URL of a distribution.
  \<open>createServerFunction\<close> is what \<open>createFunctionForEdge\<close> (for \<open>True\<close>) or
  \<open>createFunctionForRegional\<close> of the class at hand returns or throws: \<open>None\<close>
  is the object \<open>{}\<close> that the two methods of SsrSite itself return, a name
  the function that a subclass builds. \<open>cdkThrows\<close> gives the error, if any,
  with which the library rejects the construct of a given id for the props of the
  site, as it does an origin whose read timeout is below one second.
\<close>

record host =
  isUnresolved :: "string \<Rightarrow> bool"
  toSeconds :: "string \<Rightarrow> int"
  sha1_hex :: "string \<Rightarrow> string"
  md5_hex :: "string \<Rightarrow> string"
  collationKey :: "string \<Rightarrow> string"
  process_env :: "string \<rightharpoonup> string"
  runCommand :: "string \<Rightarrow> string \<Rightarrow> (string \<rightharpoonup> string) \<Rightarrow> filesystem \<Rightarrow> filesystem option"
  runArchiver :: "(string \<times> string) list \<Rightarrow> string \<Rightarrow> nat \<Rightarrow> filesystem \<Rightarrow> int \<times> filesystem"
  hasBuildScript :: "filesystem \<Rightarrow> string \<Rightarrow> bool"
  assetHashOf :: "filesystem \<Rightarrow> string \<Rightarrow> string"
  typesFileText :: "string \<Rightarrow> string"
  getParameterPath :: "string \<Rightarrow> string \<Rightarrow> string"
  distributionUrl :: string
  distributionCustomDomainUrl :: "string option"
  createServerFunction :: "bool \<Rightarrow> site_props \<Rightarrow> site_error + string option"
  cdkThrows :: "string \<Rightarrow> site_props \<Rightarrow> site_error option"


text \<open>
  What a site does to the outside, in order: the constructs it creates (class and
  id), the overridable methods of the class that create the server function, the
  grants, the files written and directories made, the processes run with their
  command line, working directory and environment, the server functions built, the
  deployment resource with its sources, its file of names, its file options and
  its replace values, and the behaviours and the invalidation added to the
  distribution.
\<close>

datatype effect =
    NewConstruct string string
  | HookCall string
  | Grant string
  | WriteFile string
  | ExecSync string string "string \<rightharpoonup> string"
  | SpawnSync "(string \<times> string) list" string nat
  | BuildFunction string
  | S3Deployment "string list" "string option" "string list list" "replace_value list"
  | MakeDir string
  | AddDependency string string
  | AddBehavior string
  | CreateInvalidation string

record asset =
  asset_id :: string
  asset_path :: string

record distribution =
  dist_url :: string
  dist_customDomainUrl :: "string option"

record ssr_site =
  site_id :: string
  node_addr :: string
  site_app :: app_ctx
  site_stack :: cdk_stack
  site_props :: site_props
  doNotDeploy :: bool
  buildConfig :: build_config
  bucket :: "string option"
  s3Origin :: "string option"
  distribution :: "distribution option"
  serverLambdaForEdge :: "string option"
  serverLambdaForRegional :: "string option"
  serverLambdaForDev :: "string option"
  serverUrlSigningFunction :: "string option"

record static_site =
  static_id :: string
  static_addr :: string
  static_app :: app_ctx
  static_stack :: cdk_stack
  static_props :: site_props
  static_doNotDeploy :: bool
  static_bucket :: "string option"
  static_distribution :: "distribution option"

text \<open>A task given to \<open>useDeferredTasks().add\<close>: the closure and the site it holds.\<close>

datatype task = BuildServerFunction string | DeploySite ssr_site | DeployStaticSite static_site

record world =
  files :: filesystem
  effects :: "effect list"
  deferredTasks :: "task list"
  sites :: "(string \<times> string \<times> string \<times> site_props) list"
  staticSites :: "(string \<times> string \<times> site_props) list"

definition emit :: "effect list \<Rightarrow> world \<Rightarrow> world" where
  "emit es w = w\<lparr>effects := effects w @ es\<rparr>"

subsection \<open>SsrSite.js: the constructor and the public properties\<close>

definition validateSiteExists :: "site_props \<Rightarrow> world \<Rightarrow> site_error + unit" where
  "validateSiteExists p w =
     (if \<not> existsSync (files w) (the_path p) then Inl (NoSiteFound (the_path p)) else Inr ())"

definition validateTimeout :: "host \<Rightarrow> site_props \<Rightarrow> site_error + unit" where
  "validateTimeout h p =
     (let num = (case the_timeout p of Seconds n \<Rightarrow> n | Duration d \<Rightarrow> toSeconds h d);
          limit = (if is_true (edge p) then 30 else 180)
      in if num > limit then Inl (TimeoutTooLong (is_true (edge p))) else Inr ())"

text \<open>
  A step of the constructor returns a value or the error thrown, with the world as
  it is then; \<open>next_step\<close> goes on with the next statement unless the step threw.
\<close>

definition next_step ::
  "(site_error + 'a) \<times> world \<Rightarrow> ('a \<Rightarrow> world \<Rightarrow> (site_error + 'b) \<times> world) \<Rightarrow>
   (site_error + 'b) \<times> world" where
  "next_step m f =
     (case m of
        (Inl e, w) \<Rightarrow> (Inl e, w)
      | (Inr x, w) \<Rightarrow> f x w)"

text \<open>\<open>new Class(this, id, ...)\<close>, which the library may reject.\<close>

definition construct ::
  "host \<Rightarrow> site_props \<Rightarrow> string \<Rightarrow> string \<Rightarrow> world \<Rightarrow> (site_error + unit) \<times> world" where
  "construct h p cls ident w =
     (case cdkThrows h ident p of
        Some e \<Rightarrow> (Inl e, w)
      | None \<Rightarrow> (Inr (), emit [NewConstruct cls ident] w))"

text \<open>
  \<open>writeTypesFile\<close> leaves an existing file alone. \<open>fs.writeFileSync\<close> throws
  when the directory of the file does not exist.
\<close>

definition writeTypesFile ::
  "host \<Rightarrow> site_props \<Rightarrow> build_config \<Rightarrow> world \<Rightarrow> (site_error + unit) \<times> world" where
  "writeTypesFile h p cfg w =
     (let dir = path_join (the_path p) (typesPath cfg);
          file = path_join dir ''sst-env.d.ts''
      in if existsSync (files w) file then (Inr (), w)
         else if \<not> isDirectory (files w) dir then (Inl (WriteFailed file), w)
         else (Inr (),
               emit [WriteFile file]
                 (w\<lparr>files := (files w)(file \<mapsto> File (typesFileText h file))\<rparr>)))"

definition createFunctionForDev ::
  "host \<Rightarrow> site_props \<Rightarrow> world \<Rightarrow> (site_error + string) \<times> world" where
  "createFunctionForDev h p w =
     next_step (construct h p ''Role'' ''ServerFunctionRole'' w) (\<lambda>u w1.
     next_step (construct h p ''SsrFunction'' ''ServerFunction'' w1) (\<lambda>u w2.
     (Inr ''ServerFunction'',
      w2\<lparr>deferredTasks := deferredTasks w2 @ [BuildServerFunction ''ServerFunction'']\<rparr>)))"

definition createS3Bucket ::
  "host \<Rightarrow> site_props \<Rightarrow> world \<Rightarrow> (site_error + string) \<times> world" where
  "createS3Bucket h p w =
     (if importedBucket p then (Inr ''cdk.bucket'', w)
      else next_step (construct h p ''Bucket'' ''S3Bucket'' w) (\<lambda>u w1. (Inr ''S3Bucket'', w1)))"

text \<open>
  The call of \<open>createFunctionForEdge\<close> or \<open>createFunctionForRegional\<close>, methods
  that a subclass overrides.
\<close>

definition createFunction ::
  "host \<Rightarrow> site_props \<Rightarrow> world \<Rightarrow> (site_error + string option) \<times> world" where
  "createFunction h p w =
     (case createServerFunction h (is_true (edge p)) p of
        Inl e \<Rightarrow> (Inl e, w)
      | Inr fn \<Rightarrow>
          (Inr fn,
           emit [HookCall (if is_true (edge p) then ''createFunctionForEdge''
                           else ''createFunctionForRegional'')] w))"

text \<open>
  \<open>this.bucket.grantReadWrite(server.role)\<close>: the object \<open>{}\<close> has no \<open>role\<close>,
  and the grant throws for a grantee that is undefined.
\<close>

definition grantServerS3Permissions ::
  "string option \<Rightarrow> world \<Rightarrow> (site_error + unit) \<times> world" where
  "grantServerS3Permissions server w =
     (case server of
        None \<Rightarrow> (Inl ServerHasNoRole, w)
      | Some fn \<Rightarrow> (Inr (), emit [Grant ''bucket.grantReadWrite(server.role)''] w))"

text \<open>
  \<open>createCloudFrontDistributionForEdge\<close> and
  \<open>createCloudFrontDistributionForRegional\<close>, with the default behaviour they
  build first: for a regional site the origin of the function URL, which is given
  the timeout of the site as its read timeout; the cache policy
  (\<open>cdk.serverCachePolicy\<close> is taken as not given) and the origin request
  policy; the CloudFront function; for a
  regional site with \<open>enableServerUrlIamAuth\<close> the signing function; and then the
  distribution.
\<close>

definition createCloudFrontDistribution ::
  "host \<Rightarrow> site_props \<Rightarrow> world \<Rightarrow> (site_error + distribution) \<times> world" where
  "createCloudFrontDistribution h p w =
     next_step (if is_true (edge p) then (Inr (), w)
                else construct h p ''HttpOrigin'' ''ServerFunctionUrl'' w) (\<lambda>u w1.
     next_step (construct h p ''CachePolicy'' ''ServerCache'' w1) (\<lambda>u w2.
     next_step (construct h p ''OriginRequestPolicy'' ''ServerOriginRequestPolicy'' w2) (\<lambda>u w3.
     next_step (construct h p ''CfFunction'' ''CloudFrontFunction'' w3) (\<lambda>u w4.
     next_step (if \<not> is_true (edge p) \<and> enableServerUrlIamAuth p
                then construct h p ''EdgeFunction'' ''ServerUrlSigningFunction'' w4
                else (Inr (), w4)) (\<lambda>u w5.
     next_step (construct h p ''Distribution'' ''CDN'' w5) (\<lambda>u w6.
     (Inr \<lparr>dist_url = distributionUrl h,
           dist_customDomainUrl = distributionCustomDomainUrl h\<rparr>, w6)))))))"

text \<open>
  The constructor. \<open>cfg\<close> is what \<open>this.initBuildConfig()\<close> returns (a subclass
  overrides it), \<open>ident\<close> the id and \<open>addr\<close> the address of the node. It returns the
  site or the error thrown, and the world as it is then.
\<close>

definition SsrSite ::
  "host \<Rightarrow> app_ctx \<Rightarrow> cdk_stack \<Rightarrow> build_config \<Rightarrow> string \<Rightarrow> string \<Rightarrow> site_props \<Rightarrow> world \<Rightarrow>
   (site_error + ssr_site) \<times> world" where
  "SsrSite h app stk cfg ident addr p w =
     (let dnd = (\<not> isActive stk \<or> (mode app = ''dev'' \<and> \<not> is_true (devDeploy p)));
          site = \<lparr>site_id = ident, node_addr = addr, site_app = app, site_stack = stk,
                  site_props = p, doNotDeploy = dnd, buildConfig = cfg,
                  bucket = None, s3Origin = None, distribution = None,
                  serverLambdaForEdge = None, serverLambdaForRegional = None,
                  serverLambdaForDev = None, serverUrlSigningFunction = None\<rparr>
      in case validateSiteExists p w of
           Inl e \<Rightarrow> (Inl e, w)
         | Inr u \<Rightarrow>
            (case validateTimeout h p of
               Inl e \<Rightarrow> (Inl e, w)
             | Inr u \<Rightarrow>
                next_step (writeTypesFile h p cfg w) (\<lambda>u w1.
                (let w2 = w1\<lparr>sites := sites w1 @ [(stackName stk, ident, ''SsrSite'', p)]\<rparr>
                 in if dnd then
                      next_step (createFunctionForDev h p w2) (\<lambda>fn w3.
                      (Inr (site\<lparr>serverLambdaForDev := Some fn\<rparr>), w3))
                    else
                      next_step (createS3Bucket h p w2) (\<lambda>b w3.
                      next_step (createFunction h p w3) (\<lambda>server w4.
                      next_step (grantServerS3Permissions server w4) (\<lambda>u w5.
                      next_step (construct h p ''S3Origin'' b w5) (\<lambda>u w6.
                      next_step (createCloudFrontDistribution h p w6) (\<lambda>d w7.
                      next_step (construct h p ''Policy'' ''ServerFunctionInvalidatorPolicy'' w7)
                        (\<lambda>u w8.
                      (let site' = site
                             \<lparr>bucket := Some b, s3Origin := Some b,
                              distribution := Some d,
                              serverLambdaForEdge :=
                                (if is_true (edge p) then server else None),
                              serverLambdaForRegional :=
                                (if is_true (edge p) then None else server),
                              serverUrlSigningFunction :=
                                (if \<not> is_true (edge p) \<and> enableServerUrlIamAuth p
                                 then Some ''ServerUrlSigningFunction'' else None)\<rparr>
                       in (Inr site',
                           w8\<lparr>deferredTasks := deferredTasks w8 @ [DeploySite site']\<rparr>))))))))))))"

text \<open>The getters \<open>url\<close> and \<open>customDomainUrl\<close>; \<open>None\<close> is \<open>undefined\<close>.\<close>

definition url :: "ssr_site \<Rightarrow> string option" where
  "url site =
     (if doNotDeploy site then devUrl (site_props site)
      else map_option dist_url (distribution site))"

definition customDomainUrl :: "ssr_site \<Rightarrow> string option" where
  "customDomainUrl site =
     (if doNotDeploy site then None
      else (case distribution site of None \<Rightarrow> None | Some d \<Rightarrow> dist_customDomainUrl d))"

record binding_variable =
  var_type :: string
  var_value :: "string option"

record function_binding =
  clientPackage :: string
  variables :: "(string \<times> binding_variable) list"
  permissions :: "(string \<times> string list) list"

text \<open>\<open>a || b\<close> on two optional strings: \<open>a\<close> unless it is undefined or empty.\<close>

definition or_else :: "string option \<Rightarrow> string option \<Rightarrow> string option" where
  "or_else a b = (case a of None \<Rightarrow> b | Some x \<Rightarrow> if x = [] then b else Some x)"

definition getFunctionBinding :: "host \<Rightarrow> ssr_site \<Rightarrow> function_binding" where
  "getFunctionBinding h site =
     \<lparr>clientPackage = ''site'',
      variables =
        [(''url'',
          if doNotDeploy site
          then \<lparr>var_type = ''plain'',
                var_value =
                  Some (case devUrl (site_props site) of
                          None \<Rightarrow> ''localhost''
                        | Some u \<Rightarrow> u)\<rparr>
          else \<lparr>var_type = ''site_url'',
                var_value = or_else (customDomainUrl site) (url site)\<rparr>)],
      permissions =
        [(''ssm:GetParameters'',
          [''arn:'' @ partition (site_stack site) @ '':ssm:'' @ region (site_app site) @ '':'' @
           account (site_app site) @ '':parameter'' @ getParameterPath h (site_id site) ''url''])]\<rparr>"

subsection \<open>SsrSite.js: the deferred build and deployment\<close>

text \<open>
  A step of the deferred task returns a value or the error thrown, with the world
  as it is then; it has no value at all (\<open>None\<close>) when it does not return.
\<close>

definition andThen ::
  "((site_error + 'a) \<times> world) option \<Rightarrow> ('a \<Rightarrow> world \<Rightarrow> ((site_error + 'b) \<times> world) option) \<Rightarrow>
   ((site_error + 'b) \<times> world) option" where
  "andThen m f =
     (case m of
        None \<Rightarrow> None
      | Some (Inl e, w) \<Rightarrow> Some (Inl e, w)
      | Some (Inr x, w) \<Rightarrow> f x w)"

text \<open>The environment that \<open>runBuild\<close> gives to \<open>execSync\<close>.\<close>

definition buildEnv :: "host \<Rightarrow> site_props \<Rightarrow> (string \<rightharpoonup> string)" where
  "buildEnv h p =
     [''SST'' \<mapsto> ''1''] ++ process_env h ++
     getBuildCmdEnvironment (isUnresolved h) (environment p)"

definition runBuild :: "host \<Rightarrow> ssr_site \<Rightarrow> world \<Rightarrow> (site_error + unit) \<times> world" where
  "runBuild h site w =
     (let sitePath = the_path (site_props site);
          defaultCommand = ''npm run build'';
          cmd = (case buildCommand (site_props site) of
                   None \<Rightarrow> defaultCommand
                 | Some c \<Rightarrow> if c = [] then defaultCommand else c)
      in if cmd = defaultCommand \<and> \<not> existsSync (files w) (path_join sitePath ''package.json'')
         then (Inl (NoPackageJson sitePath), w)
         else if cmd = defaultCommand \<and>
                 \<not> hasBuildScript h (files w) (path_join sitePath ''package.json'')
         then (Inl (NoBuildScript sitePath), w)
         else
           (case runCommand h cmd sitePath (buildEnv h (site_props site)) (files w) of
              None \<Rightarrow>
                (Inl (BuildProblem (site_id site)),
                 emit [ExecSync cmd sitePath (buildEnv h (site_props site))] w)
            | Some fs \<Rightarrow>
                (Inr (),
                 emit [ExecSync cmd sitePath (buildEnv h (site_props site))] (w\<lparr>files := fs\<rparr>))))"

definition validateBuildOutput :: "ssr_site \<Rightarrow> world \<Rightarrow> site_error + unit" where
  "validateBuildOutput site w =
     (let serverBuildFile =
            path_join (the_path (site_props site)) (serverBuildOutputFile (buildConfig site))
      in if \<not> existsSync (files w) serverBuildFile then Inl (NoServerBuildOutput serverBuildFile)
         else Inr ())"

definition buildApp :: "host \<Rightarrow> ssr_site \<Rightarrow> world \<Rightarrow> (site_error + unit) \<times> world" where
  "buildApp h site w =
     (case (if \<not> isRunningSSTTest (site_app site) then runBuild h site w else (Inr (), w)) of
        (Inl e, w1) \<Rightarrow> (Inl e, w1)
      | (Inr u, w1) \<Rightarrow> (validateBuildOutput site w1, w1))"

text \<open>
  The loop of \<open>createS3Assets\<close>, the same in both classes: it asks for
  \<open>part0.zip\<close>, \<open>part1.zip\<close>, ... and stops at the first that does not exist.
\<close>

definition zipFilePath :: "string \<Rightarrow> nat \<Rightarrow> string" where
  "zipFilePath dir partId = path_join dir (''part'' @ showNat partId @ ''.zip'')"

definition newAsset :: "string \<Rightarrow> nat \<Rightarrow> asset" where
  "newAsset dir partId =
     \<lparr>asset_id = ''Asset'' @ showNat partId, asset_path = zipFilePath dir partId\<rparr>"

partial_function (option) probeParts ::
  "filesystem \<Rightarrow> string \<Rightarrow> nat \<Rightarrow> asset list \<Rightarrow> asset list option" where
  "probeParts fs dir partId assets =
     (if \<not> existsSync fs (zipFilePath dir partId) then Some assets
      else probeParts fs dir (Suc partId) (assets @ [newAsset dir partId]))"

text \<open>\<open>a || ""\<close> on an optional string.\<close>

definition or_empty :: "string option \<Rightarrow> string" where
  "or_empty a = (case a of None \<Rightarrow> [] | Some x \<Rightarrow> x)"

definition fileSizeLimit :: "ssr_site \<Rightarrow> nat" where
  "fileSizeLimit site =
     (if isRunningSSTTest (site_app site)
      then (case sstTestFileSizeLimitOverride (site_props site) of
              None \<Rightarrow> 200
            | Some n \<Rightarrow> if n = 0 then 200 else n)
      else 200)"

definition zipOutDir :: "ssr_site \<Rightarrow> string" where
  "zipOutDir site =
     path_join (artifacts (site_app site)) (''Site-'' @ site_id site @ ''-'' @ node_addr site)"

text \<open>The list of \<open>{src, tar}\<close> that the archiver is given.\<close>

definition archiveSources :: "ssr_site \<Rightarrow> (string \<times> string) list" where
  "archiveSources site =
     [(path_join (the_path (site_props site)) (clientBuildOutputDir (buildConfig site)),
       or_empty (clientBuildS3KeyPrefix (buildConfig site)))] @
     (case prerenderedBuildOutputDir (buildConfig site) of
        None \<Rightarrow> []
      | Some d \<Rightarrow>
          if d = [] then []
          else [(path_join (the_path (site_props site)) d,
                 or_empty (prerenderedBuildS3KeyPrefix (buildConfig site)))])"

definition createS3Assets ::
  "host \<Rightarrow> ssr_site \<Rightarrow> world \<Rightarrow> ((site_error + asset list) \<times> world) option" where
  "createS3Assets h site w =
     (let w1 = w\<lparr>files := rmSync (zipOutDir site) (files w)\<rparr>;
          (status, fs) =
            runArchiver h (archiveSources site) (zipOutDir site) (fileSizeLimit site) (files w1);
          w2 = emit [SpawnSync (archiveSources site) (zipOutDir site) (fileSizeLimit site)]
                 (w1\<lparr>files := fs\<rparr>)
      in if status \<noteq> 0 then Some (Inl AssetsPackageProblem, w2)
         else
           (case probeParts (files w2) (zipOutDir site) 0 [] of
              None \<Rightarrow> None
            | Some assets \<Rightarrow>
                Some (Inr assets,
                      emit (map (\<lambda>a. NewConstruct ''Asset'' (asset_id a)) assets) w2)))"

text \<open>\<open>path.posix.join\<close> of segments: the empty ones are left out.\<close>

fun posix_join :: "string list \<Rightarrow> string" where
  "posix_join [] = ''.''"
| "posix_join (x # xs) =
     (if x = [] then posix_join xs
      else if filter (\<lambda>y. y \<noteq> []) xs = [] then x
      else x @ ''/'' @ posix_join xs)"

definition createS3AssetFileOptions ::
  "ssr_site \<Rightarrow> world \<Rightarrow> site_error + file_option list" where
  "createS3AssetFileOptions site w =
     (case fileOptions (site_props site) of
        Some fo \<Rightarrow> Inr fo
      | None \<Rightarrow>
         (let cfg = buildConfig site;
              clientPath = path_join (the_path (site_props site)) (clientBuildOutputDir cfg)
          in case readdirSync (files w) clientPath of
               None \<Rightarrow> Inl (NoSuchDirectory clientPath)
             | Some items \<Rightarrow>
                 Inr (map (\<lambda>item.
                        if item = clientBuildVersionedSubDir cfg
                        then \<lparr>fo_exclude = [''*''],
                              fo_include =
                                [posix_join [or_empty (clientBuildS3KeyPrefix cfg),
                                             clientBuildVersionedSubDir cfg, ''*'']],
                              fo_cacheControl = ''public,max-age=31536000,immutable'',
                              fo_contentType = None\<rparr>
                        else \<lparr>fo_exclude = [''*''],
                              fo_include =
                                [posix_join [or_empty (clientBuildS3KeyPrefix cfg), item,
                                             if isDirectory (files w) (path_join clientPath item)
                                             then ''*'' else []]],
                              fo_cacheControl =
                                ''public,max-age=0,s-maxage=31536000,must-revalidate'',
                              fo_contentType = None\<rparr>)
                      items)))"

definition getS3ContentReplaceValues :: "host \<Rightarrow> site_props \<Rightarrow> replace_value list" where
  "getS3ContentReplaceValues h p =
     concat (map (\<lambda>(key, v).
                    [\<lparr>rv_files = ''**/*.html'', rv_search = placeholder key, rv_replace = v\<rparr>,
                     \<lparr>rv_files = ''**/*.js'', rv_search = placeholder key, rv_replace = v\<rparr>,
                     \<lparr>rv_files = ''**/*.json'', rv_search = placeholder key, rv_replace = v\<rparr>])
                 (filter (\<lambda>(key, v). isUnresolved h v)
                    (case environment p of None \<Rightarrow> [] | Some e \<Rightarrow> e)))"

text \<open>The arguments that one file option becomes in the property \<open>FileOptions\<close>.\<close>

definition fileOptionArgs :: "file_option \<Rightarrow> string list" where
  "fileOptionArgs fo =
     concat (map (\<lambda>per. [''--exclude'', per]) (fo_exclude fo)) @
     concat (map (\<lambda>per. [''--include'', per]) (fo_include fo)) @
     [''--cache-control'', fo_cacheControl fo] @
     (case fo_contentType fo of
        None \<Rightarrow> []
      | Some c \<Rightarrow> if c = [] then [] else [''--content-type'', c])"

definition createS3Deployment ::
  "host \<Rightarrow> ssr_site \<Rightarrow> asset list \<Rightarrow> file_option list \<Rightarrow> world \<Rightarrow> string \<times> world" where
  "createS3Deployment h site assets fo w =
     (''S3Deployment'',
      emit ([NewConstruct ''Function'' ''S3Uploader'', Grant ''bucket.grantReadWrite(uploader)''] @
            map (\<lambda>a. Grant (asset_id a @ ''.grantRead(uploader)'')) assets @
            [NewConstruct ''Function'' ''S3Handler'', Grant ''bucket.grantReadWrite(handler)'',
             Grant ''uploader.grantInvoke(handler)'',
             NewConstruct ''CustomResource'' ''S3Deployment'',
             S3Deployment (map asset_id assets) None (map fileOptionArgs fo)
               (getS3ContentReplaceValues h (site_props site))]) w)"

definition createWarmer :: "ssr_site \<Rightarrow> world \<Rightarrow> (site_error + unit) \<times> world" where
  "createWarmer site w =
     (case warm (site_props site) of
        None \<Rightarrow> (Inr (), w)
      | Some n \<Rightarrow>
          if n = 0 then (Inr (), w)
          else if is_true (edge (site_props site))
          then (Inl (WarmingOnlyRegional (site_id site)), w)
          else if serverLambdaForRegional site = None then (Inr (), w)
          else (Inr (),
                emit [NewConstruct ''Function'' ''WarmerFunction'',
                      Grant ''serverLambdaForRegional.grantInvoke(warmer)'',
                      NewConstruct ''Rule'' ''WarmerRule'',
                      NewConstruct ''Policy'' ''PrewarmerPolicy'',
                      NewConstruct ''CustomResource'' ''Prewarmer''] w))"

definition addStaticFileBehaviors :: "ssr_site \<Rightarrow> world \<Rightarrow> (site_error + unit) \<times> world" where
  "addStaticFileBehaviors site w =
     (let publicDir =
            path_join (the_path (site_props site)) (clientBuildOutputDir (buildConfig site))
      in case readdirSync (files w) publicDir of
           None \<Rightarrow> (Inl (NoSuchDirectory publicDir), w)
         | Some items \<Rightarrow>
             (Inr (),
              emit (map (\<lambda>item.
                           AddBehavior (if isDirectory (files w) (path_join publicDir item)
                                        then item @ ''/*'' else item))
                        items) w))"

definition clientOutputDir :: "ssr_site \<Rightarrow> string" where
  "clientOutputDir site =
     path_join (the_path (site_props site)) (clientBuildOutputDir (buildConfig site))"

definition generateBuildId :: "host \<Rightarrow> ssr_site \<Rightarrow> filesystem \<Rightarrow> string" where
  "generateBuildId h site fs =
     (let matches = glob_sync (collationKey h) fs (clientOutputDir site)
      in sha1_hex h (fold (\<lambda>file hash. hash @ file) matches []))"

text \<open>
  The task that the constructor of a deployed site defers. \<open>hash.update(file)\<close> for
  each file in turn hashes the files' names one after the other. The list
  \<open>deferredTaskCallbacks\<close> is empty in this class.
\<close>

definition deploySite ::
  "host \<Rightarrow> ssr_site \<Rightarrow> world \<Rightarrow> ((site_error + unit) \<times> world) option" where
  "deploySite h site w =
     andThen (Some (buildApp h site w)) (\<lambda>u w1.
     andThen (Some (createWarmer site
                (emit (map BuildFunction
                         (concat (map (\<lambda>f. case f of None \<Rightarrow> [] | Some n \<Rightarrow> [n])
                            [serverLambdaForEdge site, serverLambdaForRegional site,
                             serverUrlSigningFunction site]))) w1))) (\<lambda>u w2.
     andThen (createS3Assets h site (emit [NewConstruct ''AwsCliLayer'' ''AwsCliLayer''] w2))
       (\<lambda>assets w3.
     andThen (Some (createS3AssetFileOptions site w3, w3)) (\<lambda>fo w4.
     andThen (Some (addStaticFileBehaviors site
                (emit [AddDependency ''CDN'' (fst (createS3Deployment h site assets fo w4))]
                   (snd (createS3Deployment h site assets fo w4))))) (\<lambda>u w5.
     Some (Inr (), emit [CreateInvalidation (generateBuildId h site (files w5))] w5))))))"

text \<open>What the claims about a site speak of, as tests on one effect.\<close>

fun runs_build_command :: "effect \<Rightarrow> bool" where
  "runs_build_command (ExecSync c d e) = True"
| "runs_build_command x = False"


fun makes_archive :: "effect \<Rightarrow> bool" where
  "makes_archive (SpawnSync srcs d n) = True"
| "makes_archive x = False"

fun makes_upload_resource :: "effect \<Rightarrow> bool" where
  "makes_upload_resource (NewConstruct c i) =
     (c = ''Asset'' \<or> c = ''Bucket'' \<or> c = ''AwsCliLayer'' \<or>
      (c = ''Function'' \<and> (i = ''S3Uploader'' \<or> i = ''S3Handler'')) \<or>
      (c = ''CustomResource'' \<and> i = ''S3Deployment''))"
| "makes_upload_resource (S3Deployment srcs names fo rv) = True"
| "makes_upload_resource x = False"

fun makes_cdn_behavior :: "effect \<Rightarrow> bool" where
  "makes_cdn_behavior (AddBehavior b) = True"
| "makes_cdn_behavior (NewConstruct c i) =
     (c = ''Distribution'' \<or> c = ''S3Origin'' \<or> c = ''CfFunction'')"
| "makes_cdn_behavior (CreateInvalidation b) = True"
| "makes_cdn_behavior x = False"

subsection \<open>The StaticSite class\<close>

definition dirname :: "string \<Rightarrow> string" where
  "dirname p =
     (if CHR ''/'' \<in> set p then rev (tl (dropWhile (\<lambda>c. c \<noteq> CHR ''/'') (rev p))) else ''.'')"

fun join_with :: "string \<Rightarrow> string list \<Rightarrow> string" where
  "join_with sep [] = []"
| "join_with sep [x] = x"
| "join_with sep (x # y # ys) = x @ sep @ join_with sep (y # ys)"

text \<open>The text of the types file, one line for each key of the environment.\<close>

definition viteTypesContent :: "string list \<Rightarrow> string" where
  "viteTypesContent keys =
     ''/// <reference types='' @ [CHR 0x22] @ ''vite/client'' @ [CHR 0x22] @ '' />'' @ [CHR 0x0A] @
     ''interface ImportMetaEnv {'' @ [CHR 0x0A] @
     join_with [CHR 0x0A] (map (\<lambda>key. ''  readonly '' @ key @ '': string'') keys) @ [CHR 0x0A] @
     ''}'' @ [CHR 0x0A] @
     ''interface ImportMeta {'' @ [CHR 0x0A] @
     ''  readonly env: ImportMetaEnv'' @ [CHR 0x0A] @
     ''}''"

definition generateViteTypes :: "site_props \<Rightarrow> world \<Rightarrow> world" where
  "generateViteTypes p w =
     (let sitePath = the_path p;
          typesPath =
            (case or_else (viteTypes p) None of
               Some t \<Rightarrow> Some t
             | None \<Rightarrow>
                 if existsSync (files w) (path_join sitePath ''vite.config.js'') \<or>
                    existsSync (files w) (path_join sitePath ''vite.config.ts'')
                 then Some ''src/sst-env.d.ts'' else None)
      in case typesPath of
           None \<Rightarrow> w
         | Some t \<Rightarrow>
             (let filePath = path_join sitePath t;
                  fileDir = dirname filePath;
                  content = viteTypesContent
                    (map fst (case environment p of None \<Rightarrow> [] | Some e \<Rightarrow> e))
              in emit [MakeDir fileDir, WriteFile filePath]
                   (w\<lparr>files :=
                        (files w)
                          (fileDir \<mapsto> (case files w fileDir of None \<Rightarrow> Dir [] | Some n \<Rightarrow> n),
                           filePath \<mapsto> File content)\<rparr>)))"

definition static_createS3Bucket :: "site_props \<Rightarrow> world \<Rightarrow> (site_error + string) \<times> world" where
  "static_createS3Bucket p w =
     (if importedBucket p then (Inr ''cdk.bucket'', w)
      else if or_else (websiteIndexDocument p) None \<noteq> None
      then (Inl (DoNotConfigure ''s3Bucket.websiteIndexDocument''), w)
      else if or_else (websiteErrorDocument p) None \<noteq> None
      then (Inl (DoNotConfigure ''s3Bucket.websiteErrorDocument''), w)
      else (Inr ''S3Bucket'', emit [NewConstruct ''Bucket'' ''S3Bucket''] w))"

definition createCfDistribution :: "host \<Rightarrow> site_props \<Rightarrow> string \<Rightarrow> world \<Rightarrow> distribution \<times> world" where
  "createCfDistribution h p b w =
     (\<lparr>dist_url = distributionUrl h, dist_customDomainUrl = distributionCustomDomainUrl h\<rparr>,
      emit ((if importedDistribution p then []
             else [NewConstruct ''S3Origin'' b,
                   NewConstruct ''CfFunction'' ''CloudFrontFunction'']) @
            [NewConstruct ''Distribution'' ''CDN'']) w)"

definition StaticSite ::
  "host \<Rightarrow> app_ctx \<Rightarrow> cdk_stack \<Rightarrow> string \<Rightarrow> string \<Rightarrow> site_props \<Rightarrow> world \<Rightarrow>
   (site_error + static_site) \<times> world" where
  "StaticSite h app stk ident addr p w =
     (let dnd = (\<not> isActive stk \<or> (mode app = ''dev'' \<and> \<not> is_true (devDeploy p)));
          site = \<lparr>static_id = ident, static_addr = addr, static_app = app, static_stack = stk,
                  static_props = p, static_doNotDeploy = dnd, static_bucket = None,
                  static_distribution = None\<rparr>;
          w1 = generateViteTypes p w;
          w2 = w1\<lparr>staticSites := staticSites w1 @ [(stackName stk, ident, p)]\<rparr>
      in if dnd then (Inr site, w2)
         else
           (case static_createS3Bucket p w2 of
              (Inl e, w3) \<Rightarrow> (Inl e, w3)
            | (Inr b, w3) \<Rightarrow>
                (let (d, w4) = createCfDistribution h p b w3;
                     site' = site\<lparr>static_bucket := Some b, static_distribution := Some d\<rparr>
                 in (Inr site',
                     w4\<lparr>deferredTasks := deferredTasks w4 @ [DeployStaticSite site']\<rparr>))))"

definition static_url :: "static_site \<Rightarrow> string option" where
  "static_url site =
     (if static_doNotDeploy site then devUrl (static_props site)
      else map_option dist_url (static_distribution site))"

definition static_customDomainUrl :: "static_site \<Rightarrow> string option" where
  "static_customDomainUrl site =
     (if static_doNotDeploy site then None
      else (case or_else (customDomain (static_props site)) None of
              None \<Rightarrow> None
            | Some d \<Rightarrow> Some (''https://'' @ d)))"

definition static_getFunctionBinding :: "host \<Rightarrow> static_site \<Rightarrow> function_binding" where
  "static_getFunctionBinding h site =
     \<lparr>clientPackage = ''site'',
      variables =
        [(''url'',
          if static_doNotDeploy site
          then \<lparr>var_type = ''plain'',
                var_value =
                  Some (case devUrl (static_props site) of
                          None \<Rightarrow> ''localhost''
                        | Some u \<Rightarrow> u)\<rparr>
          else \<lparr>var_type = ''site_url'',
                var_value = or_else (static_customDomainUrl site) (static_url site)\<rparr>)],
      permissions =
        [(''ssm:GetParameters'',
          [''arn:'' @ partition (static_stack site) @ '':ssm:'' @ region (static_app site) @ '':'' @
           account (static_app site) @ '':parameter'' @
           getParameterPath h (static_id site) ''url''])]\<rparr>"

definition static_buildEnv :: "host \<Rightarrow> site_props \<Rightarrow> (string \<rightharpoonup> string)" where
  "static_buildEnv h p =
     process_env h ++ getBuildCmdEnvironment (isUnresolved h) (environment p)"

definition siteOutputPath :: "site_props \<Rightarrow> string" where
  "siteOutputPath p =
     path_join (the_path p)
       (case buildOutput p of None \<Rightarrow> ''.'' | Some b \<Rightarrow> if b = [] then ''.'' else b)"

definition zipPath :: "app_ctx \<Rightarrow> string \<Rightarrow> string \<Rightarrow> string" where
  "zipPath app ident addr = path_join (artifacts app) (''StaticSite-'' @ ident @ ''-'' @ addr)"

definition static_fileSizeLimit :: "app_ctx \<Rightarrow> site_props \<Rightarrow> nat" where
  "static_fileSizeLimit app p =
     (if isRunningSSTTest app
      then (case sstTestFileSizeLimitOverride p of
              None \<Rightarrow> 200
            | Some n \<Rightarrow> if n = 0 then 200 else n)
      else 200)"

definition static_createS3Assets ::
  "host \<Rightarrow> app_ctx \<Rightarrow> string \<Rightarrow> string \<Rightarrow> site_props \<Rightarrow> world \<Rightarrow>
   ((site_error + asset list) \<times> world) option" where
  "static_createS3Assets h app ident addr p w =
     (if \<not> existsSync (files w) (siteOutputPath p)
      then Some (Inl (NoBuildOutput (siteOutputPath p)), w)
      else
        (let w1 = w\<lparr>files := rmSync (zipPath app ident addr) (files w)\<rparr>;
             (status, fs) =
               runArchiver h [(siteOutputPath p, [])] (zipPath app ident addr)
                 (static_fileSizeLimit app p) (files w1);
             w2 = emit [SpawnSync [(siteOutputPath p, [])] (zipPath app ident addr)
                          (static_fileSizeLimit app p)] (w1\<lparr>files := fs\<rparr>)
         in if status \<noteq> 0 then Some (Inl (StaticPackageProblem ident), w2)
            else
              (case probeParts (files w2) (zipPath app ident addr) 0 [] of
                 None \<Rightarrow> None
               | Some assets \<Rightarrow>
                   Some (Inr assets,
                         emit (map (\<lambda>a. NewConstruct ''Asset'' (asset_id a)) assets) w2))))"

text \<open>
  \<open>getS3ContentReplaceValues\<close> of StaticSite starts from \<open>props.replaceValues\<close>
  and pushes its own rules onto that very array: it returns the array, and the
  props as they are afterwards. Without \<open>props.replaceValues\<close> it starts from a
  new array and the props stay as they are.
\<close>

definition static_getS3ContentReplaceValues ::
  "host \<Rightarrow> site_props \<Rightarrow> replace_value list \<times> site_props" where
  "static_getS3ContentReplaceValues h p =
     (let replaceValues' =
            (case replaceValues p of None \<Rightarrow> [] | Some rs \<Rightarrow> rs) @
            concat (map (\<lambda>(key, v).
                           [\<lparr>rv_files = ''**/*.html'', rv_search = placeholder key, rv_replace = v\<rparr>,
                            \<lparr>rv_files = ''**/*.js'', rv_search = placeholder key, rv_replace = v\<rparr>])
                        (filter (\<lambda>(key, v). isUnresolved h v)
                           (case environment p of None \<Rightarrow> [] | Some e \<Rightarrow> e)))
      in (replaceValues',
          case replaceValues p of
            None \<Rightarrow> p
          | Some rs \<Rightarrow> p\<lparr>replaceValues := Some replaceValues'\<rparr>))"

definition generateInvalidationId :: "host \<Rightarrow> filesystem \<Rightarrow> asset list \<Rightarrow> string" where
  "generateInvalidationId h fs assets =
     md5_hex h (concat (map (\<lambda>a. assetHashOf h fs (asset_path a)) assets))"

definition static_buildApp :: "host \<Rightarrow> static_site \<Rightarrow> world \<Rightarrow> (site_error + unit) \<times> world" where
  "static_buildApp h site w =
     (let p = static_props site; sitePath = the_path p
      in if \<not> existsSync (files w) sitePath then (Inl (NoPathFound sitePath), w)
         else
           (case or_else (buildCommand p) None of
              None \<Rightarrow> (Inr (), w)
            | Some cmd \<Rightarrow>
                (case runCommand h cmd sitePath (static_buildEnv h p) (files w) of
                   None \<Rightarrow>
                     (Inl (StaticBuildProblem (static_id site)),
                      emit [ExecSync cmd sitePath (static_buildEnv h p)] w)
                 | Some fs \<Rightarrow>
                     (Inr (),
                      emit [ExecSync cmd sitePath (static_buildEnv h p)] (w\<lparr>files := fs\<rparr>)))))"

definition bundleFilenamesAsset ::
  "static_site \<Rightarrow> world \<Rightarrow> (site_error + asset option) \<times> world" where
  "bundleFilenamesAsset site w =
     (if purgeFiles (static_props site) = Some False then (Inr None, w)
      else
        (let filenamesPath =
               path_join (zipPath (static_app site) (static_id site) (static_addr site))
                 ''filenames''
         in if \<not> existsSync (files w) filenamesPath
            then (Inl (StaticPackageProblem (static_id site)), w)
            else (Inr (Some \<lparr>asset_id = ''AssetFilenames'', asset_path = filenamesPath\<rparr>),
                  emit [NewConstruct ''Asset'' ''AssetFilenames''] w)))"

definition static_fileOptions :: "site_props \<Rightarrow> file_option list" where
  "static_fileOptions p =
     (case fileOptions p of
        Some fo \<Rightarrow> fo
      | None \<Rightarrow>
          [\<lparr>fo_exclude = [''*''], fo_include = [''*.html''],
            fo_cacheControl = ''max-age=0,no-cache,no-store,must-revalidate'',
            fo_contentType = None\<rparr>,
           \<lparr>fo_exclude = [''*''], fo_include = [''*.js'', ''*.css''],
            fo_cacheControl = ''max-age=31536000,public,immutable'',
            fo_contentType = None\<rparr>])"

text \<open>
  \<open>createS3Deployment\<close> returns the resource; the site is returned with it, its
  props as \<open>getS3ContentReplaceValues\<close> has left them.
\<close>

definition static_createS3Deployment ::
  "host \<Rightarrow> static_site \<Rightarrow> asset list \<Rightarrow> asset option \<Rightarrow> world \<Rightarrow>
   (string \<times> static_site) \<times> world" where
  "static_createS3Deployment h site assets filenamesAsset w =
     (let (replaceValues', props') = static_getS3ContentReplaceValues h (static_props site)
      in ((''S3Deployment'', site\<lparr>static_props := props'\<rparr>),
          emit ([NewConstruct ''Function'' ''S3Uploader'',
                 Grant ''bucket.grantReadWrite(uploader)''] @
                map (\<lambda>a. Grant (asset_id a @ ''.grantRead(uploader)'')) assets @
                [NewConstruct ''Function'' ''S3Handler'',
                 Grant ''bucket.grantReadWrite(handler)''] @
                (case filenamesAsset of
                   None \<Rightarrow> []
                 | Some a \<Rightarrow> [Grant (asset_id a @ ''.grantRead(handler)'')]) @
                [Grant ''uploader.grantInvoke(handler)'',
                 NewConstruct ''CustomResource'' ''S3Deployment'',
                 S3Deployment (map asset_id assets) (map_option asset_id filenamesAsset)
                   (map fileOptionArgs (static_fileOptions (static_props site)))
                   replaceValues']) w))"

text \<open>The task that the constructor of a deployed StaticSite defers.\<close>

definition deployStaticSite ::
  "host \<Rightarrow> static_site \<Rightarrow> world \<Rightarrow> ((site_error + unit) \<times> world) option" where
  "deployStaticSite h site w =
     andThen (Some (static_buildApp h site w)) (\<lambda>u w1.
     andThen (static_createS3Assets h (static_app site) (static_id site) (static_addr site)
                (static_props site) (emit [NewConstruct ''AwsCliLayer'' ''AwsCliLayer''] w1))
       (\<lambda>assets w2.
     andThen (Some (bundleFilenamesAsset site w2)) (\<lambda>filenamesAsset w3.
     Some (Inr (),
           emit [AddDependency ''CDN''
                   (fst (fst (static_createS3Deployment h site assets filenamesAsset w3))),
                 CreateInvalidation (generateInvalidationId h (files w3) assets)]
             (snd (static_createS3Deployment h site assets filenamesAsset w3))))))"

subsection \<open>Running a deferred task\<close>

definition run_task :: "host \<Rightarrow> task \<Rightarrow> world \<Rightarrow> ((site_error + unit) \<times> world) option" where
  "run_task h t w =
     (case t of
        BuildServerFunction n \<Rightarrow> Some (Inr (), emit [BuildFunction n] w)
      | DeploySite site \<Rightarrow> deploySite h site w
      | DeployStaticSite site \<Rightarrow> deployStaticSite h site w)"

section \<open>Concrete inputs\<close>

subsection \<open>A bus with two subscribers\<close>

text \<open>
  Callbacks \<open>7\<close> and \<open>9\<close> subscribe to \<open>build.start\<close>, in this order. With
  \<open>inert\<close> no callback touches the bus; with \<open>unsubscribes_itself\<close> callback \<open>7\<close>
  calls \<open>unsubscribe\<close> on the handle its own subscription returned; with
  \<open>subscribes_another\<close> callback \<open>7\<close> subscribes callback \<open>11\<close>; with
  \<open>throws_first\<close> callback \<open>7\<close> throws. The properties of the events are
  numbers: \<open>writes_type\<close> is a \<open>JSON.stringify\<close> that writes every payload,
  \<open>cyclic\<close> one that throws. \<open>subscribe_all\<close> subscribes the callbacks of a
  list to a type, one after the other.
\<close>

fun subscribe_all :: "string \<Rightarrow> cbref list \<Rightarrow> 'p bus \<Rightarrow> 'p bus" where
  "subscribe_all ty [] b = b"
| "subscribe_all ty (cb # cbs) b =
     (case subscribe ty cb b of
        Inl e \<Rightarrow> b
      | Inr (s, b1) \<Rightarrow> subscribe_all ty cbs b1)"

definition two_subscribers :: "nat bus" where
  "two_subscribers =
     (case subscribe ''build.start'' 7 (useBus ''a1'') of
        Inl e \<Rightarrow> useBus ''a1''
      | Inr (s7, b7) \<Rightarrow>
          (case subscribe ''build.start'' 9 b7 of
             Inl e \<Rightarrow> b7
           | Inr (s9, b9) \<Rightarrow> b9))"

definition inert :: "cbref \<Rightarrow> nat payload \<Rightarrow> nat bus \<Rightarrow> bus_error + nat bus" where
  "inert cb pl b = Inr b"

definition unsubscribes_itself :: "cbref \<Rightarrow> nat payload \<Rightarrow> nat bus \<Rightarrow> bus_error + nat bus" where
  "unsubscribes_itself cb pl b =
     (if cb = 7 then unsubscribe \<lparr>sub_ref = 0, sub_type = ''build.start'', sub_cb = 7\<rparr> b
      else Inr b)"

definition subscribes_another :: "cbref \<Rightarrow> nat payload \<Rightarrow> nat bus \<Rightarrow> bus_error + nat bus" where
  "subscribes_another cb pl b =
     (if cb = 7 then map_sum id snd (subscribe ''build.start'' 11 b) else Inr b)"

definition throws_first :: "cbref \<Rightarrow> nat payload \<Rightarrow> nat bus \<Rightarrow> bus_error + nat bus" where
  "throws_first cb pl b = (if cb = 7 then Inl (CallbackThrew ''boom'') else Inr b)"

definition writes_type :: "nat payload \<Rightarrow> string option" where
  "writes_type pl = Some (p_type pl)"

definition cyclic :: "nat payload \<Rightarrow> string option" where
  "cyclic pl = None"

subsection \<open>Two stack functions\<close>

text \<open>
  Function \<open>1\<close>, named \<open>Api\<close>, returns an object; function \<open>2\<close>, named \<open>Web\<close>,
  returns a promise fulfilled with a string. \<open>example_newStack\<close> always builds the
  stack.
\<close>

definition example_defs :: "fnref \<Rightarrow> fndef" where
  "example_defs f =
     (if f = 1 then \<lparr>fn_name = ''Api'', fn_body = (\<lambda>a st r. Inr (JObj 0))\<rparr>
      else \<lparr>fn_name = ''Web'', fn_body = (\<lambda>a st r. Inr (JPromise (JStr ''url'')))\<rparr>)"

definition example_newStack ::
  "appref \<Rightarrow> string \<Rightarrow> stack_props option \<Rightarrow> stack_error + stack_handle" where
  "example_newStack a i p = Inr \<lparr>stack_scope = a, stack_id = i, stack_props = p\<rparr>"

subsection \<open>A site, its host and its files\<close>

text \<open>
  The host of the examples: a value is unresolved when it starts with the marker of
  a CDK token, the hash functions return their input, every command succeeds, the
  archiver leaves parts 0, 1, 2, 3, 4 and 7 in the directory it is given, the class
  builds a server function, and the library rejects the origin of a function URL
  whose read timeout is below one second and no other construct. Its comparison
  of two paths is one by locale: it compares the letters without their case
  first, and a small letter before its capital then; and it takes the letter
  \<open>e\<close> followed by the combining acute accent (the bytes \<open>CC 81\<close>) for equal
  to the one character of the accented letter (the bytes \<open>C3 A9\<close>), two
  spellings of the same text.
\<close>

fun compose :: "string \<Rightarrow> string" where
  "compose (a # b # c # cs) =
     (if a = CHR ''e'' \<and> b = CHR 0xCC \<and> c = CHR 0x81
      then CHR 0xC3 # CHR 0xA9 # compose cs
      else a # compose (b # c # cs))"
| "compose cs = cs"

definition small_letter :: "char \<Rightarrow> char" where
  "small_letter c =
     (case map_of (zip ''ABCDEFGHIJKLMNOPQRSTUVWXYZ'' ''abcdefghijklmnopqrstuvwxyz'') c of
        Some l \<Rightarrow> l
      | None \<Rightarrow> c)"

definition other_case :: "char \<Rightarrow> char" where
  "other_case c =
     (case map_of (zip ''ABCDEFGHIJKLMNOPQRSTUVWXYZabcdefghijklmnopqrstuvwxyz''
                       ''abcdefghijklmnopqrstuvwxyzABCDEFGHIJKLMNOPQRSTUVWXYZ'') c of
        Some l \<Rightarrow> l
      | None \<Rightarrow> c)"

definition example_collationKey :: "string \<Rightarrow> string" where
  "example_collationKey s =
     map small_letter (compose s) @ [CHR 0x00] @ map other_case (compose s)"

definition no_props :: site_props where
  "no_props =
     \<lparr>path = None, timeout = None, edge = None, dev = None, environment = None,
      buildCommand = None, warm = None, fileOptions = None,
      sstTestFileSizeLimitOverride = None, enableServerUrlIamAuth = False,
      importedBucket = False, importedDistribution = False, buildOutput = None,
      replaceValues = None, purgeFiles = None,
      viteTypes = None, customDomain = None, websiteIndexDocument = None,
      websiteErrorDocument = None\<rparr>"

definition dev_app :: app_ctx where
  "dev_app =
     \<lparr>mode = ''dev'', isRunningSSTTest = False, artifacts = ''.sst/artifacts'',
      region = ''us-east-1'', account = ''123456789012''\<rparr>"

definition deploy_app :: app_ctx where
  "deploy_app = dev_app\<lparr>mode := ''deploy''\<rparr>"

definition example_stack :: cdk_stack where
  "example_stack = \<lparr>isActive = True, stackName = ''dev-app-web'', partition = ''aws''\<rparr>"

definition six_parts :: "string \<Rightarrow> filesystem \<Rightarrow> filesystem" where
  "six_parts dir fs =
     (\<lambda>p. if p \<in> set (map (zipFilePath dir) [0, 1, 2, 3, 4, 7]) then Some (File ''PK'') else fs p)"

definition example_host :: host where
  "example_host =
     \<lparr>isUnresolved = (\<lambda>v. take 8 v = ''${Token[''),
      toSeconds = (\<lambda>d. if d = ''1 minute'' then 60 else 10),
      sha1_hex = (\<lambda>s. s),
      md5_hex = (\<lambda>s. s),
      collationKey = example_collationKey,
      process_env = [''HOME'' \<mapsto> ''/root''],
      runCommand = (\<lambda>cmd cwd env fs. Some fs),
      runArchiver = (\<lambda>srcs dir limit fs. (0, six_parts dir fs)),
      hasBuildScript = (\<lambda>fs p. True),
      assetHashOf = (\<lambda>fs p. p),
      typesFileText = (\<lambda>p. ''/// <reference path=../.sst/types/index.ts />''),
      getParameterPath = (\<lambda>i n. ''/sst/app/dev/Site/'' @ i @ ''/'' @ n),
      distributionUrl = ''https://d111111abcdef8.cloudfront.net'',
      distributionCustomDomainUrl = None,
      createServerFunction = (\<lambda>e p. Inr (Some ''ServerFunction'')),
      cdkThrows =
        (\<lambda>i p. if i = ''ServerFunctionUrl'' \<and>
                   (case the_timeout p of
                      Seconds n \<Rightarrow> n
                    | Duration d \<Rightarrow> if d = ''1 minute'' then 60 else 10) < 1
                then Some (CdkProblem ''readTimeout'')
                else None)\<rparr>"

definition web_props :: site_props where
  "web_props = no_props\<lparr>path := Some ''web'', buildOutput := Some ''dist''\<rparr>"

definition example_files :: filesystem where
  "example_files =
     (\<lambda>p. if p = ''web'' \<or> p = ''web/.''
            then Some (Dir [(''package.json'', File ''{}''),
                            (''dist'', Dir [(''index.html'', File ''<html>'')])])
          else if p = ''web/package.json'' then Some (File ''{}'')
          else if p = ''web/dist'' then Some (Dir [(''index.html'', File ''<html>'')])
          else None)"

definition example_world :: world where
  "example_world =
     \<lparr>files = example_files, effects = [], deferredTasks = [], sites = [], staticSites = []\<rparr>"

definition example_site :: ssr_site where
  "example_site =
     \<lparr>site_id = ''web'', node_addr = ''c8'', site_app = deploy_app, site_stack = example_stack,
      site_props = web_props, doNotDeploy = False, buildConfig = initBuildConfig,
      bucket = Some ''S3Bucket'', s3Origin = Some ''S3Bucket'',
      distribution =
        Some \<lparr>dist_url = ''https://d111111abcdef8.cloudfront.net'', dist_customDomainUrl = None\<rparr>,
      serverLambdaForEdge = None, serverLambdaForRegional = Some ''ServerFunction'',
      serverLambdaForDev = None, serverUrlSigningFunction = None\<rparr>"

subsection \<open>Two builds with the same file names\<close>

text \<open>
  \<open>rewrite f\<close> puts \<open>f c\<close> in the place of the contents \<open>c\<close> of every file of a
  tree. The two builds hold the same two files, with other contents and listed in
  another order.
\<close>

fun rewrite :: "(string \<Rightarrow> string) \<Rightarrow> fsnode \<Rightarrow> fsnode"
  and rewrite_entries :: "(string \<Rightarrow> string) \<Rightarrow> (string \<times> fsnode) list \<Rightarrow> (string \<times> fsnode) list" where
  "rewrite f (File c) = File (f c)"
| "rewrite f (Dir es) = Dir (rewrite_entries f es)"
| "rewrite_entries f [] = []"
| "rewrite_entries f (e # es) = (fst e, rewrite f (snd e)) # rewrite_entries f es"

definition first_build :: filesystem where
  "first_build =
     (\<lambda>p. if p = ''web/placeholder''
            then Some (Dir [(''index.html'', File ''<html>one</html>''),
                            (''assets'', Dir [(''app.js'', File ''console.log(1)'')])])
          else None)"

definition second_build :: filesystem where
  "second_build =
     (\<lambda>p. if p = ''web/placeholder''
            then Some (Dir [(''assets'', Dir [(''app.js'', File ''console.log(2)'')]),
                            (''index.html'', File ''<html>two</html>'')])
          else None)"

text \<open>
  Two builds whose two files are named with the two spellings of the accented
  letter, listed in one order and in the other; and a build whose two files are
  named with a capital and with a small letter.
\<close>

definition composed_name :: string where
  "composed_name = ''caf'' @ [CHR 0xC3, CHR 0xA9] @ ''.txt''"

definition decomposed_name :: string where
  "decomposed_name = ''cafe'' @ [CHR 0xCC, CHR 0x81] @ ''.txt''"

definition accent_build :: filesystem where
  "accent_build =
     (\<lambda>p. if p = ''web/placeholder''
            then Some (Dir [(composed_name, File ''one''), (decomposed_name, File ''two'')])
          else None)"

definition two_cases_build :: filesystem where
  "two_cases_build =
     (\<lambda>p. if p = ''web/placeholder''
            then Some (Dir [(''B.txt'', File ''b''), (''a.txt'', File ''a'')])
          else None)"

definition accent_build_reversed :: filesystem where
  "accent_build_reversed =
     (\<lambda>p. if p = ''web/placeholder''
            then Some (Dir [(decomposed_name, File ''two''), (composed_name, File ''one'')])
          else None)"

subsection \<open>Site environments\<close>

text \<open>
  A site with two variables: \<open>API_URL\<close> is given a CDK token, \<open>STAGE\<close> a literal.
  \<open>bare_host\<close> is the host of the examples with an empty process environment.
\<close>

definition env_props :: site_props where
  "env_props =
     web_props\<lparr>environment := Some [(''API_URL'', ''${Token[TOKEN.123]}''), (''STAGE'', ''dev'')]\<rparr>"




definition given_props :: site_props where
  "given_props =
     env_props\<lparr>replaceValues :=
       Some [\<lparr>rv_files = ''**/*.json'', rv_search = ''__VERSION__'', rv_replace = ''1.2.3''\<rparr>]\<rparr>"

subsection \<open>Sites that are not deployed\<close>

text \<open>The props of a site with \<open>dev.deploy\<close> false, with and without \<open>dev.url\<close>.\<close>

definition dev_props_with_url :: site_props where
  "dev_props_with_url =
     env_props\<lparr>dev := Some \<lparr>dev_deploy = Some False, dev_url = Some ''http://localhost:3000''\<rparr>\<rparr>"

definition dev_props_without_url :: site_props where
  "dev_props_without_url = env_props\<lparr>dev := Some \<lparr>dev_deploy = Some False, dev_url = None\<rparr>\<rparr>"

section \<open>Theorems\<close>

subsection \<open>Event bus\<close>

lemma subscribers_cases:
  "ty \<notin> set objectPrototypeMembers \<Longrightarrow>
   \<exists>b1. subscribers ty b = (Some (live_array b ty), b1) \<and> sourceID b1 = sourceID b \<and>
        (\<forall>ty'. live_array b1 ty' = live_array b ty') \<and> next_ref b1 = next_ref b"
  by (auto simp: subscribers_def live_array_def split: option.splits)

lemma deliver_appending:
  assumes H: "\<And>cb b'. cb \<in> sub_cb ` set arr \<Longrightarrow>
                \<exists>b'' ext. run cb pl b' = Inr b'' \<and> live_array b'' ty = live_array b' ty @ ext"
  shows "k \<le> length arr \<Longrightarrow> take (length arr) (live_array b ty) = arr \<Longrightarrow>
         length arr \<le> length (live_array b ty) \<Longrightarrow>
         \<exists>b'. deliver run ty pl 0 b [] =
                 deliver run ty pl k b' (map (\<lambda>s. (sub_cb s, pl)) (take k arr)) \<and>
              take (length arr) (live_array b' ty) = arr \<and>
              length arr \<le> length (live_array b' ty)"
proof (induction k)
  case 0
  then show ?case by auto
next
  case (Suc k)
  then have lt: "k < length arr" by simp
  from Suc obtain b' where
    d: "deliver run ty pl 0 b [] =
          deliver run ty pl k b' (map (\<lambda>s. (sub_cb s, pl)) (take k arr))"
    and t: "take (length arr) (live_array b' ty) = arr"
    and l: "length arr \<le> length (live_array b' ty)"
    by auto
  from t lt have nth: "live_array b' ty ! k = arr ! k"
    by (metis nth_take)
  from lt have "sub_cb (arr ! k) \<in> sub_cb ` set arr" by simp
  from H[OF this, of b'] obtain b'' ext where
    r: "run (sub_cb (arr ! k)) pl b' = Inr b''" and e: "live_array b'' ty = live_array b' ty @ ext"
    by blast
  have t': "take (length arr) (live_array b'' ty) = arr" using t l e by simp
  have l': "length arr \<le> length (live_array b'' ty)" using l e by simp
  have "deliver run ty pl k b' (map (\<lambda>s. (sub_cb s, pl)) (take k arr)) =
        deliver run ty pl (Suc k) b'' (map (\<lambda>s. (sub_cb s, pl)) (take (Suc k) arr))"
    using lt l r nth by (subst deliver.simps) (simp add: take_Suc_conv_app_nth)
  with d t' l' show ?case by auto
qed

lemma deliver_calls_grow:
  assumes "deliver run ty pl i b calls = Some y"
  shows "take (length calls) (fst y) = calls"
proof (rule deliver.raw_induct
         [where P = "\<lambda>run ty pl i b calls y. take (length calls) (fst y) = calls", OF _ assms])
  fix deliver' and run :: "cbref \<Rightarrow> 'a payload \<Rightarrow> 'a bus \<Rightarrow> bus_error + 'a bus"
    and ty pl i b calls y
  assume IH: "\<And>run ty pl i b calls y.
                deliver' run ty pl i b calls = Some y \<Longrightarrow> take (length calls) (fst y) = calls"
    and eq: "(if i < length (live_array b ty) then
                (case run (sub_cb (live_array b ty ! i)) pl b of
                   Inl e \<Rightarrow> Some (calls @ [(sub_cb (live_array b ty ! i), pl)], Inl e)
                 | Inr b' \<Rightarrow>
                     deliver' run ty pl (Suc i) b' (calls @ [(sub_cb (live_array b ty ! i), pl)]))
              else Some (calls, Inr b)) = Some y"
  show "take (length calls) (fst y) = calls"
  proof (cases "i < length (live_array b ty)")
    case False
    with eq show ?thesis by auto
  next
    case True
    show ?thesis
    proof (cases "run (sub_cb (live_array b ty ! i)) pl b")
      case (Inl e)
      with True eq show ?thesis by auto
    next
      case (Inr b')
      with True eq have
        "deliver' run ty pl (Suc i) b' (calls @ [(sub_cb (live_array b ty ! i), pl)]) = Some y"
        by simp
      from IH[OF this]
      have "take (Suc (length calls)) (fst y) = calls @ [(sub_cb (live_array b ty ! i), pl)]"
        by simp
      then have "take (length calls) (take (Suc (length calls)) (fst y)) = calls" by simp
      then show ?thesis by (simp add: min_def)
    qed
  qed
qed

lemma deliver_stable:
  assumes H: "\<forall>cb b' b''. cb \<in> sub_cb ` set arr \<and> run cb pl b' = Inr b'' \<longrightarrow>
                live_array b'' ty = live_array b' ty"
    and R: "\<forall>cb b'. cb \<in> sub_cb ` set arr \<longrightarrow> (\<exists>b''. run cb pl b' = Inr b'')"
  shows "live_array b ty = arr \<Longrightarrow> i \<le> length arr \<Longrightarrow>
         \<exists>b'. deliver run ty pl i b calls =
                 Some (calls @ map (\<lambda>s. (sub_cb s, pl)) (drop i arr), Inr b') \<and>
              live_array b' ty = arr"
proof (induction "length arr - i" arbitrary: i b calls)
  case 0
  then have "i = length arr" by simp
  with 0 show ?case by (subst deliver.simps) simp
next
  case (Suc n)
  then have lt: "i < length arr" by simp
  then have m: "sub_cb (arr ! i) \<in> sub_cb ` set arr" by simp
  from R m obtain b'' where
    r: "run (sub_cb (arr ! i)) pl b = Inr b''" by blast
  from H m r have l: "live_array b'' ty = live_array b ty" by blast
  have n: "n = length arr - Suc i" using Suc.hyps(2) by simp
  from Suc.hyps(1)[OF n, of b'' "calls @ [(sub_cb (arr ! i), pl)]"] l Suc.prems lt
  obtain b' where
    d: "deliver run ty pl (Suc i) b'' (calls @ [(sub_cb (arr ! i), pl)]) =
          Some ((calls @ [(sub_cb (arr ! i), pl)]) @
                map (\<lambda>s. (sub_cb s, pl)) (drop (Suc i) arr), Inr b')"
    and l': "live_array b' ty = arr"
    by auto
  have "drop i arr = arr ! i # drop (Suc i) arr" using lt by (simp add: Cons_nth_drop_Suc)
  with d l' r lt Suc.prems show ?case
    by (subst deliver.simps) simp
qed

lemma publish_eq_deliver:
  assumes "ty \<notin> set objectPrototypeMembers"
    and "ty \<in> DO_NOT_LOG \<or> stringify \<lparr>p_type = ty, p_properties = props, p_sourceID = sourceID b\<rparr> \<noteq> None"
  shows "\<exists>b1. publish run stringify ty props b =
                deliver run ty \<lparr>p_type = ty, p_properties = props, p_sourceID = sourceID b\<rparr> 0 b1 [] \<and>
              live_array b1 ty = live_array b ty"
proof -
  let ?pl = "\<lparr>p_type = ty, p_properties = props, p_sourceID = sourceID b\<rparr>"
  let ?b0 = "if ty \<notin> DO_NOT_LOG then b\<lparr>debug_log := debug_log b @ [?pl]\<rparr> else b"
  have l0: "live_array ?b0 ty = live_array b ty" by (simp add: live_array_def)
  from subscribers_cases[OF assms(1), of ?b0] obtain b1 where
    s: "subscribers ty ?b0 = (Some (live_array ?b0 ty), b1)" and
    l1: "live_array b1 ty = live_array ?b0 ty"
    by blast
  from assms(2) s have "publish run stringify ty props b = deliver run ty ?pl 0 b1 []"
    by (auto simp: publish_def Let_def)
  with l0 l1 show ?thesis by auto
qed

lemma subscribe_appends:
  "subscribe ty cb b = Inr (s, b1) \<Longrightarrow>
   live_array b1 ty = live_array b ty @ [s] \<and> sub_cb s = cb \<and> sub_type s = ty \<and>
   sourceID b1 = sourceID b \<and> (\<forall>ty'. ty' \<noteq> ty \<longrightarrow> live_array b1 ty' = live_array b ty')"
  by (auto simp: subscribe_def subscribers_def live_array_def Let_def
      split: if_splits option.splits)

lemma subscribe_returns:
  "ty \<notin> set objectPrototypeMembers \<Longrightarrow>
   \<exists>s b1. subscribe ty cb b = Inr (s, b1) \<and> live_array b1 ty = live_array b ty @ [s]"
  by (auto simp: subscribe_def subscribers_def live_array_def Let_def split: option.splits)

lemma subscribe_all_appends:
  "ty \<notin> set objectPrototypeMembers \<Longrightarrow>
   map sub_cb (live_array (subscribe_all ty cbs b) ty) = map sub_cb (live_array b ty) @ cbs \<and>
   sourceID (subscribe_all ty cbs b) = sourceID b"
proof (induction cbs arbitrary: b)
  case Nil
  then show ?case by simp
next
  case (Cons cb cbs)
  from subscribe_returns[OF Cons.prems, of cb b] obtain s b1 where
    s: "subscribe ty cb b = Inr (s, b1)" by blast
  from subscribe_appends[OF s] Cons.IH[OF Cons.prems, of b1] s
  show ?case by simp
qed

lemma indexOf_split:
  "indexOf arr r = Some i \<Longrightarrow> \<exists>x. arr = take i arr @ x # drop (Suc i) arr"
proof (induction arr arbitrary: i)
  case Nil
  then show ?case by simp
next
  case (Cons a arr)
  then show ?case by (auto split: if_splits)
qed

lemma unsubscribe_removes_one:
  assumes "unsubscribe s b = Inr b2"
  shows "sourceID b2 = sourceID b"
    and "live_array b2 ty = live_array b ty \<or>
         (\<exists>xs x ys. live_array b ty = xs @ x # ys \<and> live_array b2 ty = xs @ ys)"
proof -
  show "sourceID b2 = sourceID b"
    using assms
    by (auto simp: unsubscribe_def subscribers_def split: if_splits option.splits)
  show "live_array b2 ty = live_array b ty \<or>
         (\<exists>xs x ys. live_array b ty = xs @ x # ys \<and> live_array b2 ty = xs @ ys)"
  proof (cases "sub_type s \<in> set objectPrototypeMembers")
    case True
    with assms show ?thesis by (simp add: unsubscribe_def subscribers_def)
  next
    case False
    from subscribers_cases[OF False, of b] obtain b1 where
      s: "subscribers (sub_type s) b = (Some (live_array b (sub_type s)), b1)" and
      l1: "\<forall>ty'. live_array b1 ty' = live_array b ty'"
      by blast
    show ?thesis
    proof (cases "indexOf (live_array b (sub_type s)) (sub_ref s)")
      case None
      with assms s l1 show ?thesis by (simp add: unsubscribe_def)
    next
      case (Some i)
      with assms s have b2: "b2 = b1\<lparr>subscriptions := (subscriptions b1)
          (sub_type s \<mapsto> take i (live_array b (sub_type s)) @ drop (Suc i) (live_array b (sub_type s)))\<rparr>"
        by (simp add: unsubscribe_def)
      show ?thesis
      proof (cases "ty = sub_type s")
        case True
        from indexOf_split[OF Some] obtain x where
          "live_array b ty = take i (live_array b ty) @ x # drop (Suc i) (live_array b ty)"
          using True by auto
        moreover have "live_array b2 ty = take i (live_array b ty) @ drop (Suc i) (live_array b ty)"
          using b2 True by (simp add: live_array_def)
        ultimately show ?thesis by blast
      next
        case False
        with b2 l1 have "live_array b2 ty = live_array b ty"
          by (simp add: live_array_def)
        then show ?thesis by simp
      qed
    qed
  qed
qed

lemma two_subscribers_eq:
  "two_subscribers =
     \<lparr>sourceID = ''a1'',
      subscriptions = [''build.start'' \<mapsto>
        [\<lparr>sub_ref = 0, sub_type = ''build.start'', sub_cb = 7\<rparr>,
         \<lparr>sub_ref = 1, sub_type = ''build.start'', sub_cb = 9\<rparr>]],
      next_ref = 2, debug_log = []\<rparr>"
  by (simp add: two_subscribers_def subscribe_def subscribers_def useBus_def numeral_2_eq_2 Let_def
        objectPrototypeMembers_def)

text \<open>
  C7, as amended. Let the type be no name of a member of \<open>Object.prototype\<close>, let
  \<open>JSON.stringify\<close> write the payload unless the type is in \<open>DO_NOT_LOG\<close>, and
  let every callback subscribed to the type return normally and remove nothing
  from the array of the type: it leaves the array as it found it, or longer at the
  end. Then \<open>publish\<close> first calls the callbacks of the subscriptions that the
  array holds when it is called, each once, in the order of the array, each with
  the same payload of the type, the properties and the \<open>sourceID\<close> of the bus;
  from there the loop goes on with what the callbacks have added, and the calls of
  a \<open>publish\<close> that returns begin with these. When the callbacks leave the array
  as it is, \<open>publish\<close> returns, after exactly these calls. The order of the array
  is the order of subscription: \<open>subscribe\<close> puts the new subscription at its end,
  so that callbacks subscribed one after the other stand in the array in that
  order, behind those that were there; and \<open>unsubscribe\<close> takes one
  subscription out and leaves the others in place. Both leave the \<open>sourceID\<close>
  as it was drawn.
\<close>

theorem publish_delivers_in_subscription_order:
  assumes "ty \<notin> set objectPrototypeMembers"
    and "ty \<in> DO_NOT_LOG \<or>
         stringify \<lparr>p_type = ty, p_properties = props, p_sourceID = sourceID b\<rparr> \<noteq> None"
    and "\<forall>cb b'. cb \<in> sub_cb ` set (live_array b ty) \<longrightarrow>
           (\<exists>b'' ext.
              run cb \<lparr>p_type = ty, p_properties = props, p_sourceID = sourceID b\<rparr> b' = Inr b'' \<and>
              live_array b'' ty = live_array b' ty @ ext)"
  shows "(\<exists>b'. publish run stringify ty props b =
            deliver run ty \<lparr>p_type = ty, p_properties = props, p_sourceID = sourceID b\<rparr>
              (length (live_array b ty)) b'
              (map (\<lambda>s. (sub_cb s, \<lparr>p_type = ty, p_properties = props, p_sourceID = sourceID b\<rparr>))
                 (live_array b ty)) \<and>
            take (length (live_array b ty)) (live_array b' ty) = live_array b ty) \<and>
         (\<forall>calls r. publish run stringify ty props b = Some (calls, r) \<longrightarrow>
            take (length (live_array b ty)) calls =
              map (\<lambda>s. (sub_cb s, \<lparr>p_type = ty, p_properties = props, p_sourceID = sourceID b\<rparr>))
                (live_array b ty)) \<and>
         ((\<forall>cb b' b''. cb \<in> sub_cb ` set (live_array b ty) \<and>
              run cb \<lparr>p_type = ty, p_properties = props, p_sourceID = sourceID b\<rparr> b' = Inr b'' \<longrightarrow>
              live_array b'' ty = live_array b' ty) \<longrightarrow>
          (\<exists>b'. publish run stringify ty props b =
             Some (map (\<lambda>s. (sub_cb s, \<lparr>p_type = ty, p_properties = props, p_sourceID = sourceID b\<rparr>))
                     (live_array b ty), Inr b'))) \<and>
         (subscribe ty cb' b = Inr (s, b1) \<longrightarrow>
            live_array b1 ty = live_array b ty @ [s] \<and> sub_cb s = cb' \<and> sourceID b1 = sourceID b) \<and>
         (unsubscribe s' b = Inr b2 \<longrightarrow>
            sourceID b2 = sourceID b \<and>
            (live_array b2 ty = live_array b ty \<or>
             (\<exists>xs x ys. live_array b ty = xs @ x # ys \<and> live_array b2 ty = xs @ ys))) \<and>
         map sub_cb (live_array (subscribe_all ty cbs b) ty) = map sub_cb (live_array b ty) @ cbs \<and>
         sourceID (subscribe_all ty cbs b) = sourceID b"
proof -
  let ?pl = "\<lparr>p_type = ty, p_properties = props, p_sourceID = sourceID b\<rparr>"
  let ?arr = "live_array b ty"
  let ?calls = "map (\<lambda>s. (sub_cb s, ?pl)) ?arr"
  from publish_eq_deliver[where ty = ty and stringify = stringify and props = props and b = b
         and run = run, OF assms(1,2)]
  obtain b1 where
    p: "publish run stringify ty props b = deliver run ty ?pl 0 b1 []" and
    l1: "live_array b1 ty = ?arr"
    by blast
  have H: "\<And>cb b'. cb \<in> sub_cb ` set ?arr \<Longrightarrow>
             \<exists>b'' ext. run cb ?pl b' = Inr b'' \<and> live_array b'' ty = live_array b' ty @ ext"
    using assms(3) by blast
  from deliver_appending[of ?arr run ?pl ty "length ?arr" b1, OF H] l1
  obtain b' where
    d: "deliver run ty ?pl 0 b1 [] = deliver run ty ?pl (length ?arr) b' ?calls" and
    t: "take (length ?arr) (live_array b' ty) = ?arr"
    by auto
  have 1: "\<exists>b'. publish run stringify ty props b = deliver run ty ?pl (length ?arr) b' ?calls \<and>
             take (length ?arr) (live_array b' ty) = ?arr"
    using p d t by auto
  have 2: "\<forall>calls r. publish run stringify ty props b = Some (calls, r) \<longrightarrow>
             take (length ?arr) calls = ?calls"
  proof (intro allI impI)
    fix calls r
    assume "publish run stringify ty props b = Some (calls, r)"
    with p d have "deliver run ty ?pl (length ?arr) b' ?calls = Some (calls, r)" by simp
    from deliver_calls_grow[OF this] show "take (length ?arr) calls = ?calls" by simp
  qed
  have 3: "(\<forall>cb b' b''. cb \<in> sub_cb ` set ?arr \<and> run cb ?pl b' = Inr b'' \<longrightarrow>
              live_array b'' ty = live_array b' ty) \<longrightarrow>
          (\<exists>b'. publish run stringify ty props b = Some (?calls, Inr b'))"
  proof
    assume S: "\<forall>cb b' b''. cb \<in> sub_cb ` set ?arr \<and> run cb ?pl b' = Inr b'' \<longrightarrow>
              live_array b'' ty = live_array b' ty"
    have R: "\<forall>cb b'. cb \<in> sub_cb ` set ?arr \<longrightarrow> (\<exists>b''. run cb ?pl b' = Inr b'')"
      using H by blast
    from deliver_stable[where arr = ?arr and run = run and pl = ?pl and ty = ty and b = b1
           and i = 0 and calls = "[]", OF S R l1]
    obtain b' where "deliver run ty ?pl 0 b1 [] = Some (?calls, Inr b')"
      by auto
    with p show "\<exists>b'. publish run stringify ty props b = Some (?calls, Inr b')" by auto
  qed
  have 4: "subscribe ty cb' b = Inr (s, b1) \<longrightarrow>
            live_array b1 ty = live_array b ty @ [s] \<and> sub_cb s = cb' \<and> sourceID b1 = sourceID b"
    for b1
    using subscribe_appends[of ty cb' b s b1] by blast
  have 5: "unsubscribe s' b = Inr b2 \<longrightarrow>
            sourceID b2 = sourceID b \<and>
            (live_array b2 ty = live_array b ty \<or>
             (\<exists>xs x ys. live_array b ty = xs @ x # ys \<and> live_array b2 ty = xs @ ys))"
    using unsubscribe_removes_one(1)[of s' b b2] unsubscribe_removes_one(2)[of s' b b2 ty] by blast
  have 6: "map sub_cb (live_array (subscribe_all ty cbs b) ty) = map sub_cb (live_array b ty) @ cbs \<and>
           sourceID (subscribe_all ty cbs b) = sourceID b"
    using subscribe_all_appends[OF assms(1)] by blast
  from 1 2 3 4 5 6 show ?thesis by blast
qed

lemma build_start_is_no_member: "''build.start'' \<notin> set objectPrototypeMembers"
  by (simp add: objectPrototypeMembers_def)

lemma publish_subscribes_another:
  "map_option fst (publish subscribes_another writes_type ''build.start'' 0 two_subscribers) =
     Some [(7, \<lparr>p_type = ''build.start'', p_properties = 0, p_sourceID = ''a1''\<rparr>),
           (9, \<lparr>p_type = ''build.start'', p_properties = 0, p_sourceID = ''a1''\<rparr>),
           (11, \<lparr>p_type = ''build.start'', p_properties = 0, p_sourceID = ''a1''\<rparr>)]"
  apply (simp add: two_subscribers_eq publish_def subscribers_def DO_NOT_LOG_def Let_def
           objectPrototypeMembers_def writes_type_def)
  apply (subst deliver.simps)
  apply (simp add: live_array_def subscribes_another_def subscribe_def subscribers_def Let_def
           objectPrototypeMembers_def)
  apply (subst deliver.simps)
  apply (simp add: live_array_def subscribes_another_def subscribe_def subscribers_def Let_def
           objectPrototypeMembers_def)
  apply (subst deliver.simps)
  apply (simp add: live_array_def subscribes_another_def subscribe_def subscribers_def Let_def
           objectPrototypeMembers_def)
  apply (subst deliver.simps)
  apply (simp add: live_array_def subscribes_another_def subscribe_def subscribers_def Let_def
           objectPrototypeMembers_def)
  done

theorem publish_delivers_in_subscription_order_witness:
  "(\<exists>b'. publish inert writes_type ''build.start'' 0 two_subscribers =
      Some ([(7, \<lparr>p_type = ''build.start'', p_properties = 0, p_sourceID = ''a1''\<rparr>),
             (9, \<lparr>p_type = ''build.start'', p_properties = 0, p_sourceID = ''a1''\<rparr>)], Inr b')) \<and>
   (\<exists>calls r. publish subscribes_another writes_type ''build.start'' 0 two_subscribers =
      Some (calls, r) \<and>
      take 2 calls =
        [(7, \<lparr>p_type = ''build.start'', p_properties = 0, p_sourceID = ''a1''\<rparr>),
         (9, \<lparr>p_type = ''build.start'', p_properties = 0, p_sourceID = ''a1''\<rparr>)]) \<and>
   (\<exists>s b1. subscribe ''build.start'' 13 two_subscribers = Inr (s, b1) \<and>
      map sub_cb (live_array b1 ''build.start'') = [7, 9, 13]) \<and>
   map sub_cb (live_array (subscribe_all ''build.start'' [13, 5, 8] two_subscribers) ''build.start'') =
     [7, 9, 13, 5, 8]"
proof -
  let ?pl = "\<lparr>p_type = ''build.start'', p_properties = 0::nat, p_sourceID = ''a1''\<rparr>"
  have arr: "live_array two_subscribers ''build.start'' =
      [\<lparr>sub_ref = 0, sub_type = ''build.start'', sub_cb = 7\<rparr>,
       \<lparr>sub_ref = 1, sub_type = ''build.start'', sub_cb = 9\<rparr>]"
    and sid: "sourceID two_subscribers = ''a1''"
    by (simp_all add: two_subscribers_eq live_array_def)
  have w: "ty \<in> DO_NOT_LOG \<or> writes_type pl \<noteq> None" for ty pl
    by (simp add: writes_type_def)
  have h1: "\<forall>cb b'. cb \<in> sub_cb ` set (live_array two_subscribers ''build.start'') \<longrightarrow>
       (\<exists>b'' ext. inert cb \<lparr>p_type = ''build.start'', p_properties = 0,
                             p_sourceID = sourceID two_subscribers\<rparr> b' = Inr b'' \<and>
          live_array b'' ''build.start'' = live_array b' ''build.start'' @ ext)"
    by (simp add: inert_def)
  have h2: "\<forall>cb b'. cb \<in> sub_cb ` set (live_array two_subscribers ''build.start'') \<longrightarrow>
       (\<exists>b'' ext. subscribes_another cb \<lparr>p_type = ''build.start'', p_properties = 0,
                             p_sourceID = sourceID two_subscribers\<rparr> b' = Inr b'' \<and>
          live_array b'' ''build.start'' = live_array b' ''build.start'' @ ext)"
  proof (intro allI impI)
    fix cb :: nat and b' :: "nat bus"
    from subscribe_returns[OF build_start_is_no_member, of 11 b'] obtain s b1 where
      "subscribe ''build.start'' 11 b' = Inr (s, b1)"
      "live_array b1 ''build.start'' = live_array b' ''build.start'' @ [s]"
      by blast
    then show "\<exists>b'' ext. subscribes_another cb \<lparr>p_type = ''build.start'', p_properties = 0,
                             p_sourceID = sourceID two_subscribers\<rparr> b' = Inr b'' \<and>
          live_array b'' ''build.start'' = live_array b' ''build.start'' @ ext"
      by (simp add: subscribes_another_def)
  qed
  note t = publish_delivers_in_subscription_order
  from t[where ty = "''build.start''" and stringify = writes_type and props = 0
           and b = two_subscribers and run = inert, OF build_start_is_no_member w h1]
  have 1: "\<exists>b'. publish inert writes_type ''build.start'' 0 two_subscribers =
      Some ([(7, ?pl), (9, ?pl)], Inr b')"
    by (simp add: arr sid inert_def)
  from publish_subscribes_another obtain r where
    p: "publish subscribes_another writes_type ''build.start'' 0 two_subscribers =
          Some ([(7, ?pl), (9, ?pl), (11, ?pl)], r)"
    by auto
  from t[where ty = "''build.start''" and stringify = writes_type and props = 0
           and b = two_subscribers and run = subscribes_another,
         OF build_start_is_no_member w h2] p
  have "take 2 [(7, ?pl), (9, ?pl), (11, ?pl)] = [(7, ?pl), (9, ?pl)]"
    by (simp add: arr sid)
  with p have 2: "\<exists>calls r. publish subscribes_another writes_type ''build.start'' 0 two_subscribers =
      Some (calls, r) \<and> take 2 calls = [(7, ?pl), (9, ?pl)]"
    by blast
  from subscribe_returns[OF build_start_is_no_member, of 13 two_subscribers] obtain s b1 where
    s: "subscribe ''build.start'' 13 two_subscribers = Inr (s, b1)" by blast
  from t[where ty = "''build.start''" and stringify = writes_type and props = 0
           and b = two_subscribers and run = inert and cb' = 13 and s = s and ?b1.0 = b1,
         OF build_start_is_no_member w h1] s
  have "live_array b1 ''build.start'' = live_array two_subscribers ''build.start'' @ [s] \<and>
        sub_cb s = 13"
    by blast
  with s have 3: "\<exists>s b1. subscribe ''build.start'' 13 two_subscribers = Inr (s, b1) \<and>
      map sub_cb (live_array b1 ''build.start'') = [7, 9, 13]"
    by (auto simp: arr)
  from t[where ty = "''build.start''" and stringify = writes_type and props = 0
           and b = two_subscribers and run = inert and cbs = "[13, 5, 8]",
         OF build_start_is_no_member w h1]
  have 4: "map sub_cb (live_array (subscribe_all ''build.start'' [13, 5, 8] two_subscribers)
             ''build.start'') = [7, 9, 13, 5, 8]"
    by (simp add: arr)
  from 1 2 3 4 show ?thesis by blast
qed

text \<open>
  C7 as stated fails in four ways. On the bus with subscribers \<open>7\<close> and \<open>9\<close>,
  where callback \<open>7\<close> unsubscribes itself, the array shrinks under the loop:
  \<open>publish\<close> calls \<open>7\<close> only, and \<open>9\<close>, which is subscribed before and after, is
  not called. Where callback \<open>7\<close> throws, \<open>publish\<close> throws what it threw and
  \<open>9\<close> is not called. With properties that \<open>JSON.stringify\<close> cannot write,
  \<open>publish\<close> throws before it calls any subscriber. And for the type
  \<open>constructor\<close>, which \<open>Object.prototype\<close> has as a member, \<open>subscribe\<close> and
  \<open>publish\<close> throw.
\<close>

theorem publish_skips_subscriber_counterexample:
  "map_option fst (publish unsubscribes_itself writes_type ''build.start'' 0 two_subscribers) =
     Some [(7, \<lparr>p_type = ''build.start'', p_properties = 0, p_sourceID = ''a1''\<rparr>)] \<and>
   map_option (\<lambda>r. case snd r of Inl e \<Rightarrow> [] | Inr b' \<Rightarrow> map sub_cb (live_array b' ''build.start''))
     (publish unsubscribes_itself writes_type ''build.start'' 0 two_subscribers) = Some [9] \<and>
   publish throws_first writes_type ''build.start'' 0 two_subscribers =
     Some ([(7, \<lparr>p_type = ''build.start'', p_properties = 0, p_sourceID = ''a1''\<rparr>)],
           Inl (CallbackThrew ''boom'')) \<and>
   publish inert cyclic ''build.start'' 0 two_subscribers = Some ([], Inl NotSerialisable) \<and>
   map_sum id fst (subscribe ''constructor'' 7 two_subscribers) = Inl (NotAnArray ''constructor'') \<and>
   publish inert writes_type ''constructor'' 0 two_subscribers =
     Some ([], Inl (NotAnArray ''constructor''))"
  apply (simp add: two_subscribers_eq publish_def subscribers_def DO_NOT_LOG_def Let_def
           objectPrototypeMembers_def writes_type_def cyclic_def subscribe_def)
  apply (subst deliver.simps)
  apply (simp add: live_array_def unsubscribes_itself_def unsubscribe_def subscribers_def Let_def
           objectPrototypeMembers_def)
  apply (subst deliver.simps)
  apply (simp add: live_array_def)
  apply (subst deliver.simps)
  apply (simp add: live_array_def unsubscribes_itself_def unsubscribe_def subscribers_def Let_def
           objectPrototypeMembers_def)
  apply (subst deliver.simps)
  apply (simp add: live_array_def)
  apply (subst deliver.simps)
  apply (simp add: live_array_def throws_first_def)
  done

text \<open>
  C10. The function that \<open>forward\<close> returns subscribes as \<open>subscribe\<close> does: the same
  handle and the same bus, whatever types were given to \<open>forward\<close>.
\<close>

theorem forward_is_subscribe:
  "forward ts ty cb b = subscribe ty cb b \<and> forward ts = (forward ts' :: _ \<Rightarrow> _ \<Rightarrow> 'p bus \<Rightarrow> _)"
  by (simp add: forward_def)

subsection \<open>Functional stacks\<close>

lemma exported_alt:
  "exported r app fn = (case exportsCache r app of None \<Rightarrow> None | Some m \<Rightarrow> m fn)"
  by (simp add: exported_def getExports_def split: option.splits)

lemma exported_setExport:
  "exported (setExport a f v r) a' f' = (if a' = a \<and> f' = f then Some v else exported r a' f')"
  by (auto simp: exported_alt setExport_def getExports_def Let_def split: option.splits)

lemma exported_setStack: "exported (setStack a f st r) a' f' = exported r a' f'"
  by (auto simp: exported_alt setStack_def getStacks_def Let_def split: option.splits)

lemma exported_getExports: "exported (snd (getExports a r)) a' f' = exported r a' f'"
  by (auto simp: exported_alt getExports_def split: option.splits)

lemma exported_cong_fields:
  "exported (r\<lparr>currentApp := x, currentStack := y\<rparr>) a f = exported r a f"
  "exported (r\<lparr>pending := z\<rparr>) a f = exported r a f"
  by (simp_all add: exported_alt)

lemma currentApp_simps:
  "currentApp (setExport a f v r) = currentApp r"
  "currentApp (setStack a f st r) = currentApp r"
  "currentApp (snd (getExports a r)) = currentApp r"
  by (auto simp: setExport_def setStack_def getExports_def getStacks_def Let_def split: option.splits)

lemma currentStack_simps:
  "currentStack (setExport a f v r) = currentStack r"
  "currentStack (setStack a f st r) = currentStack r"
  "currentStack (snd (getExports a r)) = currentStack r"
  by (auto simp: setExport_def setStack_def getExports_def getStacks_def Let_def split: option.splits)

lemma pending_simps:
  "pending (setExport a f v r) = pending r"
  "pending (setStack a f st r) = pending r"
  "pending (snd (getExports a r)) = pending r"
  by (auto simp: setExport_def setStack_def getExports_def getStacks_def Let_def split: option.splits)

lemma use_eq:
  "fst (use defs fn r) =
     (case currentApp r of
        None \<Rightarrow> Inl NoAppIsSet
      | Some app \<Rightarrow>
          (case exported r app fn of
             None \<Rightarrow> Inl (StackWrongOrder (fn_name (defs fn))
                            (map_option (\<lambda>c. fn_name (defs c)) (currentStack r)))
           | Some v \<Rightarrow> Inr v))"
  by (simp add: use_def exported_def Let_def split_beta split: option.splits)

lemma stack_duplicate:
  "exported r app fn = Some v \<Longrightarrow>
   fst (stack defs newStack app fn props r) = Inl (StackDuplicates (stackId defs fn props))"
  by (simp add: stack_def Let_def split_beta exported_def[symmetric] exported_cong_fields)

lemma stack_sync:
  assumes body: "\<And>st r'. fn_body (defs fn) app st r' = Inr v"
    and ok: "fst (stack defs newStack app fn props r) = Inr (ReturnsApp a)"
  shows "exported (snd (stack defs newStack app fn props r)) a' f' =
           (if a' = app \<and> f' = fn then Some v else exported r a' f')"
    and "currentApp (snd (stack defs newStack app fn props r)) = Some app"
    and "currentStack (snd (stack defs newStack app fn props r)) = Some fn"
    and "a = app"
  using ok
  by (auto simp: stack_def Let_def split_beta body exported_setExport exported_setStack
        exported_getExports exported_cong_fields currentApp_simps currentStack_simps
      split: if_splits sum.splits jsval.splits)

lemma stack_async:
  assumes body: "\<And>st r'. fn_body (defs fn) app st r' = Inr (JPromise data)"
    and ok: "fst (stack defs newStack app fn props r) = Inr ReturnsPromise"
  shows "exported (snd (stack defs newStack app fn props r)) a' f' = exported r a' f'"
    and "exported r app fn = None"
    and "currentApp (snd (stack defs newStack app fn props r)) = Some app"
    and "currentStack (snd (stack defs newStack app fn props r)) = Some fn"
    and "pending (snd (stack defs newStack app fn props r)) = pending r @ [(app, fn, data)]"
  using ok
  by (auto simp: stack_def Let_def split_beta body exported_setExport exported_setStack
        exported_getExports exported_cong_fields currentApp_simps currentStack_simps pending_simps
        exported_def[symmetric]
      split: if_splits sum.splits jsval.splits)

lemma fulfil_last:
  "pending r1 = ps @ [(app, fn, data)] \<Longrightarrow>
   exported (fulfil (length ps) r1) a' f' = (if a' = app \<and> f' = fn then Some data else exported r1 a' f')
   \<and> currentApp (fulfil (length ps) r1) = currentApp r1
   \<and> currentStack (fulfil (length ps) r1) = currentStack r1
   \<and> pending (fulfil (length ps) r1) = ps"
  by (simp add: fulfil_def exported_setExport exported_cong_fields currentApp_simps
        currentStack_simps pending_simps nth_append)

lemma stack_other_app:
  "a' \<noteq> app \<Longrightarrow> exported (snd (stack defs newStack app fn props r)) a' f' = exported r a' f'"
  by (auto simp: stack_def Let_def split_beta exported_setExport exported_setStack
        exported_getExports exported_cong_fields
      split: if_splits sum.splits jsval.splits)

lemma stack_succeeds:
  assumes "exported r app fn = None" and "newStack app (stackId defs fn props) props = Inr st"
    and body: "\<And>st r'. fn_body (defs fn) app st r' = Inr v"
    and "\<not> (truthy v \<and> \<not> isObject v)"
  shows "\<exists>res. fst (stack defs newStack app fn props r) = Inr res"
  using assms(1,2,4)
  by (auto simp: stack_def Let_def split_beta body exported_def[symmetric] exported_cong_fields
      split: if_splits sum.splits jsval.splits)

text \<open>
  C5. While an application is being built, \<open>use(fn)\<close> throws the error
  \<open>StackWrongOrder\<close> when no output is stored for \<open>fn\<close> under that application, and
  returns the stored output when there is one. After \<open>stack\<close> has registered a
  function that returns a value \<open>v\<close>, \<open>use\<close> returns \<open>v\<close>. After \<open>stack\<close> has
  registered a function that returns a promise, \<open>use\<close> throws until the promise is
  fulfilled, and from then on returns the value it was fulfilled with.
\<close>

theorem use_returns_registered_output:
  "(currentApp r = Some app \<and> exported r app fn = None \<longrightarrow>
      fst (use defs fn r) =
        Inl (StackWrongOrder (fn_name (defs fn))
               (map_option (\<lambda>c. fn_name (defs c)) (currentStack r)))) \<and>
   (currentApp r = Some app \<and> exported r app fn = Some v \<longrightarrow> fst (use defs fn r) = Inr v) \<and>
   ((\<forall>st r'. fn_body (defs fn) app st r' = Inr v) \<and>
    fst (stack defs newStack app fn props r) = Inr (ReturnsApp app) \<longrightarrow>
      fst (use defs fn (snd (stack defs newStack app fn props r))) = Inr v) \<and>
   ((\<forall>st r'. fn_body (defs fn) app st r' = Inr (JPromise data)) \<and>
    fst (stack defs newStack app fn props r) = Inr ReturnsPromise \<longrightarrow>
      fst (use defs fn (snd (stack defs newStack app fn props r))) =
        Inl (StackWrongOrder (fn_name (defs fn)) (Some (fn_name (defs fn)))) \<and>
      fst (use defs fn (fulfil (length (pending r)) (snd (stack defs newStack app fn props r)))) =
        Inr data)"
proof (intro conjI impI)
  assume "currentApp r = Some app \<and> exported r app fn = None"
  then show "fst (use defs fn r) =
        Inl (StackWrongOrder (fn_name (defs fn))
               (map_option (\<lambda>c. fn_name (defs c)) (currentStack r)))"
    by (simp add: use_eq)
next
  assume "currentApp r = Some app \<and> exported r app fn = Some v"
  then show "fst (use defs fn r) = Inr v" by (simp add: use_eq)
next
  assume a: "(\<forall>st r'. fn_body (defs fn) app st r' = Inr v) \<and>
    fst (stack defs newStack app fn props r) = Inr (ReturnsApp app)"
  then have body: "\<And>st r'. fn_body (defs fn) app st r' = Inr v" by blast
  from a have ok: "fst (stack defs newStack app fn props r) = Inr (ReturnsApp app)" by blast
  note f = stack_sync[where defs = defs and fn = fn and app = app and v = v, OF body ok]
  show "fst (use defs fn (snd (stack defs newStack app fn props r))) = Inr v"
    by (simp add: use_eq f(1,2,3))
next
  assume a: "(\<forall>st r'. fn_body (defs fn) app st r' = Inr (JPromise data)) \<and>
    fst (stack defs newStack app fn props r) = Inr ReturnsPromise"
  then have body: "\<And>st r'. fn_body (defs fn) app st r' = Inr (JPromise data)" by blast
  from a have ok: "fst (stack defs newStack app fn props r) = Inr ReturnsPromise" by blast
  note f = stack_async[where defs = defs and fn = fn and app = app and data = data, OF body ok]
  show "fst (use defs fn (snd (stack defs newStack app fn props r))) =
        Inl (StackWrongOrder (fn_name (defs fn)) (Some (fn_name (defs fn))))"
    by (simp add: use_eq f)
  from fulfil_last[OF f(5)]
  show "fst (use defs fn (fulfil (length (pending r)) (snd (stack defs newStack app fn props r)))) =
        Inr data"
    by (simp add: use_eq f)
qed

lemmas ex_defs = stack_def stackId_def example_defs_def example_newStack_def initial_registry_def
        getExports_def setExport_def setStack_def getStacks_def Let_def use_def fulfil_def exported_def

theorem use_returns_registered_output_witness:
  "fst (use example_defs 1 (initial_registry\<lparr>currentApp := Some 0\<rparr>)) =
     Inl (StackWrongOrder ''Api'' None) \<and>
   fst (use example_defs 1 (snd (stack example_defs example_newStack 0 1 None initial_registry))) =
     Inr (JObj 0) \<and>
   fst (use example_defs 2 (snd (stack example_defs example_newStack 0 2 None initial_registry))) =
     Inl (StackWrongOrder ''Web'' (Some ''Web'')) \<and>
   fst (use example_defs 2
          (fulfil 0 (snd (stack example_defs example_newStack 0 2 None initial_registry)))) =
     Inr (JStr ''url'')"
  using use_returns_registered_output
          [of "initial_registry\<lparr>currentApp := Some 0\<rparr>" 0 1 example_defs "JObj 0"
              example_newStack None "JStr ''url''"]
        use_returns_registered_output
          [of initial_registry 0 1 example_defs "JObj 0" example_newStack None "JStr ''url''"]
        use_returns_registered_output
          [of initial_registry 0 2 example_defs "JObj 0" example_newStack None "JStr ''url''"]
  by (simp add: ex_defs)

text \<open>
  The test for a duplicate. \<open>stack\<close> throws \<open>StackDuplicates\<close> for a function
  whose output is stored under the application: so a second registration fails
  after a first whose function returned a value, whatever id the second is given,
  and after a first whose promise has been fulfilled. Registering the function
  for another application, under which it has no output, succeeds whatever was
  registered for the first.
\<close>

theorem duplicate_stack_rejected_once_output_stored:
  "(exported r app fn = Some v \<longrightarrow>
      fst (stack defs newStack app fn props r) = Inl (StackDuplicates (stackId defs fn props))) \<and>
   ((\<forall>st r'. fn_body (defs fn) app st r' = Inr v) \<and>
    fst (stack defs newStack app fn props r) = Inr (ReturnsApp app) \<longrightarrow>
      fst (stack defs newStack app fn props' (snd (stack defs newStack app fn props r))) =
        Inl (StackDuplicates (stackId defs fn props'))) \<and>
   ((\<forall>st r'. fn_body (defs fn) app st r' = Inr (JPromise data)) \<and>
    fst (stack defs newStack app fn props r) = Inr ReturnsPromise \<longrightarrow>
      fst (stack defs newStack app fn props'
             (fulfil (length (pending r)) (snd (stack defs newStack app fn props r)))) =
        Inl (StackDuplicates (stackId defs fn props'))) \<and>
   (app' \<noteq> app \<and> exported r app' fn = None \<and>
    newStack app' (stackId defs fn props') props' = Inr st' \<and>
    (\<forall>st r'. fn_body (defs fn) app' st r' = Inr v') \<and> \<not> (truthy v' \<and> \<not> isObject v') \<longrightarrow>
      (\<exists>res. fst (stack defs newStack app' fn props' (snd (stack defs newStack app fn props r))) =
               Inr res))"
proof (intro conjI impI)
  assume "exported r app fn = Some v"
  then show "fst (stack defs newStack app fn props r) = Inl (StackDuplicates (stackId defs fn props))"
    by (rule stack_duplicate)
next
  assume a: "(\<forall>st r'. fn_body (defs fn) app st r' = Inr v) \<and>
    fst (stack defs newStack app fn props r) = Inr (ReturnsApp app)"
  then have body: "\<And>st r'. fn_body (defs fn) app st r' = Inr v" by blast
  from a have ok: "fst (stack defs newStack app fn props r) = Inr (ReturnsApp app)" by blast
  note f = stack_sync[where defs = defs and fn = fn and app = app and v = v, OF body ok]
  have "exported (snd (stack defs newStack app fn props r)) app fn = Some v"
    by (simp add: f(1))
  then show "fst (stack defs newStack app fn props' (snd (stack defs newStack app fn props r))) =
        Inl (StackDuplicates (stackId defs fn props'))"
    by (rule stack_duplicate)
next
  assume a: "(\<forall>st r'. fn_body (defs fn) app st r' = Inr (JPromise data)) \<and>
    fst (stack defs newStack app fn props r) = Inr ReturnsPromise"
  then have body: "\<And>st r'. fn_body (defs fn) app st r' = Inr (JPromise data)" by blast
  from a have ok: "fst (stack defs newStack app fn props r) = Inr ReturnsPromise" by blast
  note f = stack_async[where defs = defs and fn = fn and app = app and data = data, OF body ok]
  from fulfil_last[OF f(5)]
  have "exported (fulfil (length (pending r)) (snd (stack defs newStack app fn props r))) app fn =
          Some data"
    by simp
  then show "fst (stack defs newStack app fn props'
             (fulfil (length (pending r)) (snd (stack defs newStack app fn props r)))) =
        Inl (StackDuplicates (stackId defs fn props'))"
    by (rule stack_duplicate)
next
  assume a: "app' \<noteq> app \<and> exported r app' fn = None \<and>
    newStack app' (stackId defs fn props') props' = Inr st' \<and>
    (\<forall>st r'. fn_body (defs fn) app' st r' = Inr v') \<and> \<not> (truthy v' \<and> \<not> isObject v')"
  then have body: "\<And>st r'. fn_body (defs fn) app' st r' = Inr v'" by blast
  from a have "exported (snd (stack defs newStack app fn props r)) app' fn = None"
    by (simp add: stack_other_app)
  from stack_succeeds[where defs = defs and fn = fn and app = app' and v = v', OF this _ body] a
  show "\<exists>res. fst (stack defs newStack app' fn props' (snd (stack defs newStack app fn props r))) =
               Inr res"
    by blast
qed

theorem duplicate_stack_rejected_once_output_stored_witness:
  "fst (stack example_defs example_newStack 0 1 None
          (snd (stack example_defs example_newStack 0 1 None initial_registry))) =
     Inl (StackDuplicates ''Api'') \<and>
   fst (stack example_defs example_newStack 0 2 None
          (fulfil 0 (snd (stack example_defs example_newStack 0 2 None initial_registry)))) =
     Inl (StackDuplicates ''Web'') \<and>
   fst (stack example_defs example_newStack 5 1 None
          (snd (stack example_defs example_newStack 0 1 None initial_registry))) =
     Inr (ReturnsApp 5)"
  using duplicate_stack_rejected_once_output_stored
          [of "snd (stack example_defs example_newStack 0 1 None initial_registry)" 0 1 "JObj 0"
              example_defs example_newStack None None "JStr ''url''" 5
              "\<lparr>stack_scope = 5, stack_id = ''Api'', stack_props = None\<rparr>" "JObj 0"]
        duplicate_stack_rejected_once_output_stored
          [of initial_registry 0 1 "JObj 0"
              example_defs example_newStack None None "JStr ''url''" 5
              "\<lparr>stack_scope = 5, stack_id = ''Api'', stack_props = None\<rparr>" "JObj 0"]
        duplicate_stack_rejected_once_output_stored
          [of initial_registry 0 2 "JObj 0"
              example_defs example_newStack None None "JStr ''url''" 5
              "\<lparr>stack_scope = 5, stack_id = ''Web'', stack_props = None\<rparr>" "JObj 0"]
  by (simp add: ex_defs)

text \<open>
  C4, at the input where the code departs from it. Function \<open>2\<close> returns a
  promise. It is registered for application \<open>0\<close> as stack \<open>a\<close>, and again,
  before that promise is fulfilled, as stack \<open>b\<close>: the second call does not throw
  \<open>StackDuplicates\<close>, it returns a promise, although the first call has entered
  the function in \<open>stackCache\<close> before it ran it. \<open>stack\<close> looks for a
  duplicate in \<open>exportsCache\<close>, which is written in the \<open>then\<close> callback
  only. The same two calls with function \<open>1\<close>, which returns an object, do throw
  at the second, and so do those with function \<open>2\<close> once the promise is
  fulfilled.
\<close>

theorem pending_duplicate_accepted:
  "fst (stack example_defs example_newStack 0 2 (Some \<lparr>props_id = Some ''b''\<rparr>)
          (snd (stack example_defs example_newStack 0 2 (Some \<lparr>props_id = Some ''a''\<rparr>)
                  initial_registry))) =
     Inr ReturnsPromise \<and>
   map_option stack_id
     (fst (getStacks 0
             (snd (stack example_defs example_newStack 0 2 (Some \<lparr>props_id = Some ''a''\<rparr>)
                     initial_registry))) 2) = Some ''a'' \<and>
   fst (stack example_defs example_newStack 0 1 (Some \<lparr>props_id = Some ''b''\<rparr>)
          (snd (stack example_defs example_newStack 0 1 (Some \<lparr>props_id = Some ''a''\<rparr>)
                  initial_registry))) =
     Inl (StackDuplicates ''b'') \<and>
   fst (stack example_defs example_newStack 0 2 (Some \<lparr>props_id = Some ''b''\<rparr>)
          (fulfil 0
             (snd (stack example_defs example_newStack 0 2 (Some \<lparr>props_id = Some ''a''\<rparr>)
                     initial_registry)))) =
     Inl (StackDuplicates ''b'')"
  by (simp add: ex_defs)

subsection \<open>Discovery of the archive parts\<close>

lemma probeParts_from:
  "k \<le> n \<Longrightarrow> (\<forall>i. k \<le> i \<and> i < n \<longrightarrow> existsSync fs (zipFilePath dir i)) \<Longrightarrow>
   \<not> existsSync fs (zipFilePath dir n) \<Longrightarrow>
   probeParts fs dir k assets = Some (assets @ map (newAsset dir) [k..<n])"
proof (induction "n - k" arbitrary: k assets)
  case 0
  then have "k = n" by simp
  with 0 show ?case by (subst probeParts.simps) simp
next
  case (Suc m)
  then have lt: "k < n" by simp
  then have ex: "existsSync fs (zipFilePath dir k)" using Suc.prems by simp
  have "probeParts fs dir (Suc k) (assets @ [newAsset dir k]) =
          Some ((assets @ [newAsset dir k]) @ map (newAsset dir) [Suc k..<n])"
    using Suc lt by (intro Suc.hyps(1)) auto
  with ex lt show ?case
    by (subst probeParts.simps) (simp add: upt_conv_Cons)
qed

text \<open>
  C2. Let \<open>part0.zip\<close> up to the part before \<open>n\<close> exist and part \<open>n\<close> not, in the
  directory the archiver has written. Then the loop returns, with exactly \<open>n\<close>
  assets, \<open>Asset0\<close> up to the asset before \<open>n\<close>, whatever else the directory holds;
  so \<open>createS3Assets\<close> of SsrSite and of StaticSite return these assets when the
  archiver exits with status 0. The witness has parts 0 to 4 and part 7.
\<close>

theorem part_discovery_stops_at_first_missing_part:
  "((\<forall>i. i < n \<longrightarrow> existsSync fs (zipFilePath dir i)) \<and> \<not> existsSync fs (zipFilePath dir n) \<longrightarrow>
      probeParts fs dir 0 [] = Some (map (newAsset dir) [0..<n]) \<and>
      map_option length (probeParts fs dir 0 []) = Some n) \<and>
   (runArchiver h (archiveSources site) (zipOutDir site) (fileSizeLimit site)
        (rmSync (zipOutDir site) (files w)) = (0, fs) \<and>
    (\<forall>i. i < n \<longrightarrow> existsSync fs (zipFilePath (zipOutDir site) i)) \<and>
    \<not> existsSync fs (zipFilePath (zipOutDir site) n) \<longrightarrow>
      map_option fst (createS3Assets h site w) =
        Some (Inr (map (newAsset (zipOutDir site)) [0..<n]))) \<and>
   (existsSync (files w) (siteOutputPath p) \<and>
    runArchiver h [(siteOutputPath p, [])] (zipPath app ident addr) (static_fileSizeLimit app p)
        (rmSync (zipPath app ident addr) (files w)) = (0, fs) \<and>
    (\<forall>i. i < n \<longrightarrow> existsSync fs (zipFilePath (zipPath app ident addr) i)) \<and>
    \<not> existsSync fs (zipFilePath (zipPath app ident addr) n) \<longrightarrow>
      map_option fst (static_createS3Assets h app ident addr p w) =
        Some (Inr (map (newAsset (zipPath app ident addr)) [0..<n])))"
proof (intro conjI impI)
  assume a: "(\<forall>i. i < n \<longrightarrow> existsSync fs (zipFilePath dir i)) \<and> \<not> existsSync fs (zipFilePath dir n)"
  then have "probeParts fs dir 0 [] = Some ([] @ map (newAsset dir) [0..<n])"
    by (intro probeParts_from) auto
  then show "probeParts fs dir 0 [] = Some (map (newAsset dir) [0..<n])" by simp
  then show "map_option length (probeParts fs dir 0 []) = Some n" by simp
next
  assume a: "runArchiver h (archiveSources site) (zipOutDir site) (fileSizeLimit site)
        (rmSync (zipOutDir site) (files w)) = (0, fs) \<and>
    (\<forall>i. i < n \<longrightarrow> existsSync fs (zipFilePath (zipOutDir site) i)) \<and>
    \<not> existsSync fs (zipFilePath (zipOutDir site) n)"
  then have "probeParts fs (zipOutDir site) 0 [] =
      Some ([] @ map (newAsset (zipOutDir site)) [0..<n])"
    by (intro probeParts_from) auto
  with a show "map_option fst (createS3Assets h site w) =
        Some (Inr (map (newAsset (zipOutDir site)) [0..<n]))"
    by (simp add: createS3Assets_def Let_def emit_def)
next
  assume a: "existsSync (files w) (siteOutputPath p) \<and>
    runArchiver h [(siteOutputPath p, [])] (zipPath app ident addr) (static_fileSizeLimit app p)
        (rmSync (zipPath app ident addr) (files w)) = (0, fs) \<and>
    (\<forall>i. i < n \<longrightarrow> existsSync fs (zipFilePath (zipPath app ident addr) i)) \<and>
    \<not> existsSync fs (zipFilePath (zipPath app ident addr) n)"
  then have "probeParts fs (zipPath app ident addr) 0 [] =
      Some ([] @ map (newAsset (zipPath app ident addr)) [0..<n])"
    by (intro probeParts_from) auto
  with a show "map_option fst (static_createS3Assets h app ident addr p w) =
        Some (Inr (map (newAsset (zipPath app ident addr)) [0..<n]))"
    by (simp add: static_createS3Assets_def Let_def emit_def)
qed

lemma showNat_small: "n < 10 \<Longrightarrow> showNat n = [digit n]"
  by (simp add: showNat.simps)

lemma zipFilePath_small_inj:
  "i < 10 \<Longrightarrow> j < 10 \<Longrightarrow> (zipFilePath dir i = zipFilePath dir j) = (i = j)"
proof -
  assume a: "i < 10" "j < 10"
  have "\<And>k. k < 10 \<Longrightarrow> k \<in> {0, 1, 2, 3, 4, 5, 6, 7, 8, 9::nat}" by auto
  with a have "i \<in> {0, 1, 2, 3, 4, 5, 6, 7, 8, 9::nat}" "j \<in> {0, 1, 2, 3, 4, 5, 6, 7, 8, 9::nat}"
    by blast+
  then show ?thesis
    by (auto simp: zipFilePath_def path_join_def showNat_small digit_def)
qed

lemma six_parts_present:
  "i < 5 \<Longrightarrow> existsSync (six_parts dir fs0) (zipFilePath dir i)"
proof -
  assume "i < 5"
  then have "i \<in> {0, 1, 2, 3, 4::nat}" by auto
  then show ?thesis by (auto simp: existsSync_def six_parts_def)
qed

lemma six_parts_absent:
  "fs0 (zipFilePath dir 5) = None \<Longrightarrow> \<not> existsSync (six_parts dir fs0) (zipFilePath dir 5)"
  by (simp add: existsSync_def six_parts_def zipFilePath_small_inj)

lemma rmSync_below: "rmSync dir fs0 (zipFilePath dir i) = None"
  by (simp add: rmSync_def zipFilePath_def path_join_def)

theorem part_discovery_stops_at_first_missing_part_witness:
  "map_option length (probeParts (six_parts ''zips'' (\<lambda>p. None)) ''zips'' 0 []) = Some 5 \<and>
   map_option fst (createS3Assets example_host example_site example_world) =
     Some (Inr (map (newAsset (zipOutDir example_site)) [0..<5])) \<and>
   map_option fst (static_createS3Assets example_host deploy_app ''web'' ''c8'' web_props example_world) =
     Some (Inr (map (newAsset (zipPath deploy_app ''web'' ''c8'')) [0..<5]))"
proof -
  have run: "runArchiver example_host srcs dir limit fs0 = (0, six_parts dir fs0)"
    for srcs dir limit fs0
    by (simp add: example_host_def)
  have out: "existsSync (files example_world) (siteOutputPath web_props)"
    by (simp add: existsSync_def example_world_def example_files_def siteOutputPath_def
          web_props_def no_props_def the_path_def path_join_def)
  from part_discovery_stops_at_first_missing_part
         [of 5 "six_parts ''zips'' (\<lambda>p. None)" "''zips''"]
  have 1: "map_option length (probeParts (six_parts ''zips'' (\<lambda>p. None)) ''zips'' 0 []) = Some 5"
    by (simp add: six_parts_present six_parts_absent)
  from part_discovery_stops_at_first_missing_part
         [of 5 "six_parts (zipOutDir example_site)
                  (rmSync (zipOutDir example_site) (files example_world))"
             _ example_host example_site example_world]
  have 2: "map_option fst (createS3Assets example_host example_site example_world) =
     Some (Inr (map (newAsset (zipOutDir example_site)) [0..<5]))"
    by (simp add: run six_parts_present six_parts_absent rmSync_below)
  from part_discovery_stops_at_first_missing_part
         [of 5 "six_parts (zipPath deploy_app ''web'' ''c8'')
                  (rmSync (zipPath deploy_app ''web'' ''c8'') (files example_world))"
             _ example_host _ example_world web_props deploy_app "''web''" "''c8''"]
  have 3: "map_option fst
             (static_createS3Assets example_host deploy_app ''web'' ''c8'' web_props example_world) =
     Some (Inr (map (newAsset (zipPath deploy_app ''web'' ''c8'')) [0..<5]))"
    by (simp add: run out six_parts_present six_parts_absent rmSync_below)
  from 1 2 3 show ?thesis by blast
qed

subsection \<open>The build identifier\<close>

lemma sort_key_unique:
  assumes "distinct xs" and "distinct ys" and "set xs = set ys" and "inj_on f (set xs)"
  shows "sort_key f xs = sort_key f ys"
proof -
  have "distinct (map f (sort_key f xs))" "distinct (map f (sort_key f ys))"
    using assms by (simp_all add: distinct_map)
  moreover have "sorted (map f (sort_key f xs))" "sorted (map f (sort_key f ys))"
    by simp_all
  moreover have "set (map f (sort_key f xs)) = set (map f (sort_key f ys))"
    using assms(3) by simp
  ultimately have "map f (sort_key f xs) = map f (sort_key f ys)"
    by (intro sorted_distinct_set_unique)
  moreover have "inj_on f (set (sort_key f xs) \<union> set (sort_key f ys))"
    using assms(3,4) by simp
  ultimately show ?thesis by (simp add: inj_on_map_eq_map)
qed

lemma glob_sync_paths:
  "set (glob_sync key fs cwd) = relativeFilePaths fs cwd"
  by (simp add: glob_sync_def relativeFilePaths_def split: option.splits fsnode.splits)

lemma glob_sync_same_paths:
  assumes "relativeFilePaths fs1 cwd = relativeFilePaths fs2 cwd"
    and "inj_on key (relativeFilePaths fs1 cwd)"
  shows "glob_sync key fs1 cwd = glob_sync key fs2 cwd"
proof -
  define l1 where "l1 = (case fs1 cwd of Some (Dir es) \<Rightarrow> rev (remdups (rev (walks [] es))) | _ \<Rightarrow> [])"
  define l2 where "l2 = (case fs2 cwd of Some (Dir es) \<Rightarrow> rev (remdups (rev (walks [] es))) | _ \<Rightarrow> [])"
  have g: "glob_sync key fs1 cwd = sort_key key l1" "glob_sync key fs2 cwd = sort_key key l2"
    by (simp_all add: glob_sync_def l1_def l2_def split: option.splits fsnode.splits)
  have s: "set l1 = relativeFilePaths fs1 cwd" "set l2 = relativeFilePaths fs2 cwd"
    by (simp_all add: relativeFilePaths_def l1_def l2_def split: option.splits fsnode.splits)
  have d: "distinct l1" "distinct l2"
    by (simp_all add: l1_def l2_def split: option.splits fsnode.splits)
  from sort_key_unique[OF d] s assms show ?thesis by (simp add: g)
qed

lemma walk_rewrite:
  "walk p (rewrite f t) = walk p t"
  "walks p (rewrite_entries f es) = walks p es"
  by (induction p t and p es rule: walk_walks.induct) simp_all

lemma glob_sync_rewrite:
  "glob_sync key (\<lambda>p. map_option (rewrite f) (fs p)) cwd = glob_sync key fs cwd"
  by (simp add: glob_sync_def walk_rewrite split: option.splits fsnode.splits)

text \<open>
  C3, as amended. The build identifier of SsrSite is the hash of the names that
  \<open>glob\<close> lists in the client output directory, which are the relative paths of
  the files below it. Let two builds hold files of the same relative paths, no
  two of which the comparison of \<open>glob\<close> takes for equal: then they get the same
  identifier. And rewriting the contents of the files of a build leaves its
  identifier as it was.
\<close>

theorem build_id_depends_on_file_names_only:
  "(relativeFilePaths fs1 (clientOutputDir site) = relativeFilePaths fs2 (clientOutputDir site) \<and>
    inj_on (collationKey h) (relativeFilePaths fs1 (clientOutputDir site)) \<longrightarrow>
      generateBuildId h site fs1 = generateBuildId h site fs2) \<and>
   generateBuildId h site (\<lambda>p. map_option (rewrite f) (fs p)) = generateBuildId h site fs \<and>
   set (glob_sync (collationKey h) fs (clientOutputDir site)) =
     relativeFilePaths fs (clientOutputDir site)"
proof (intro conjI impI)
  assume "relativeFilePaths fs1 (clientOutputDir site) =
            relativeFilePaths fs2 (clientOutputDir site) \<and>
          inj_on (collationKey h) (relativeFilePaths fs1 (clientOutputDir site))"
  then have "glob_sync (collationKey h) fs1 (clientOutputDir site) =
             glob_sync (collationKey h) fs2 (clientOutputDir site)"
    using glob_sync_same_paths[of fs1 "clientOutputDir site" fs2 "collationKey h"] by blast
  then show "generateBuildId h site fs1 = generateBuildId h site fs2"
    by (simp add: generateBuildId_def)
next
  show "generateBuildId h site (\<lambda>p. map_option (rewrite f) (fs p)) = generateBuildId h site fs"
    by (simp add: generateBuildId_def glob_sync_rewrite)
next
  show "set (glob_sync (collationKey h) fs (clientOutputDir site)) =
          relativeFilePaths fs (clientOutputDir site)"
    by (rule glob_sync_paths)
qed

lemma example_paths:
  "relativeFilePaths first_build (clientOutputDir example_site) = {''index.html'', ''assets/app.js''}"
  "relativeFilePaths second_build (clientOutputDir example_site) = {''index.html'', ''assets/app.js''}"
  by (auto simp: relativeFilePaths_def first_build_def second_build_def clientOutputDir_def
        example_site_def web_props_def no_props_def the_path_def path_join_def
        initBuildConfig_def rel_def)

theorem build_id_depends_on_file_names_only_witness:
  "generateBuildId example_host example_site first_build =
     generateBuildId example_host example_site second_build \<and>
   first_build ''web/placeholder'' \<noteq> second_build ''web/placeholder''"
proof -
  have "inj_on (collationKey example_host)
          (relativeFilePaths first_build (clientOutputDir example_site))"
    by (simp add: example_paths example_host_def example_collationKey_def)
  with build_id_depends_on_file_names_only
         [of first_build example_site second_build example_host]
  show ?thesis
    by (simp add: example_paths) (simp add: first_build_def second_build_def)
qed

text \<open>
  C3 as stated fails for two paths that the comparison takes for equal. The two
  builds hold the same two files, named with the two spellings of the accented
  letter, and list them in another order: the sort leaves each order as it is,
  so \<open>glob\<close> returns two lists, the hash is given two texts, and the
  identifiers differ.
\<close>

theorem build_id_differs_for_equal_keys_counterexample:
  "relativeFilePaths accent_build (clientOutputDir example_site) =
     relativeFilePaths accent_build_reversed (clientOutputDir example_site) \<and>
   glob_sync (collationKey example_host) accent_build (clientOutputDir example_site) =
     [composed_name, decomposed_name] \<and>
   glob_sync (collationKey example_host) accent_build_reversed (clientOutputDir example_site) =
     [decomposed_name, composed_name] \<and>
   generateBuildId example_host example_site accent_build = composed_name @ decomposed_name \<and>
   generateBuildId example_host example_site accent_build_reversed =
     decomposed_name @ composed_name \<and>
   generateBuildId example_host example_site accent_build \<noteq>
     generateBuildId example_host example_site accent_build_reversed"
proof -
  have p: "relativeFilePaths accent_build (clientOutputDir example_site) =
             relativeFilePaths accent_build_reversed (clientOutputDir example_site)"
    by (auto simp: relativeFilePaths_def accent_build_def accent_build_reversed_def
          clientOutputDir_def example_site_def web_props_def no_props_def the_path_def
          path_join_def initBuildConfig_def rel_def)
  have k: "example_collationKey decomposed_name = example_collationKey composed_name"
    by (simp add: example_collationKey_def composed_name_def decomposed_name_def)
  have n: "composed_name \<noteq> decomposed_name"
    by (simp add: composed_name_def decomposed_name_def)
  have 1: "generateBuildId example_host example_site accent_build =
             composed_name @ decomposed_name"
    using n
    by (simp add: generateBuildId_def glob_sync_def accent_build_def clientOutputDir_def
          example_site_def web_props_def no_props_def the_path_def path_join_def
          initBuildConfig_def rel_def example_host_def k)
  have 2: "generateBuildId example_host example_site accent_build_reversed =
             decomposed_name @ composed_name"
    using n
    by (simp add: generateBuildId_def glob_sync_def accent_build_reversed_def clientOutputDir_def
          example_site_def web_props_def no_props_def the_path_def path_join_def
          initBuildConfig_def rel_def example_host_def k)
  have 3: "composed_name @ decomposed_name \<noteq> decomposed_name @ composed_name"
    by (simp add: composed_name_def decomposed_name_def)
  have 4: "glob_sync (collationKey example_host) accent_build (clientOutputDir example_site) =
             [composed_name, decomposed_name]"
    using n
    by (simp add: glob_sync_def accent_build_def clientOutputDir_def
          example_site_def web_props_def no_props_def the_path_def path_join_def
          initBuildConfig_def rel_def example_host_def k)
  have 5: "glob_sync (collationKey example_host) accent_build_reversed
             (clientOutputDir example_site) = [decomposed_name, composed_name]"
    using n
    by (simp add: glob_sync_def accent_build_reversed_def clientOutputDir_def
          example_site_def web_props_def no_props_def the_path_def path_join_def
          initBuildConfig_def rel_def example_host_def k)
  from p 1 2 3 4 5 show ?thesis by simp
qed

text \<open>
  The comparison by locale puts the small letter first, where the character codes
  would put the capital.
\<close>

lemma build_id_orders_by_locale:
  "generateBuildId example_host example_site two_cases_build = ''a.txtB.txt''"
  by (simp add: generateBuildId_def glob_sync_def two_cases_build_def clientOutputDir_def
        example_site_def web_props_def no_props_def the_path_def path_join_def
        initBuildConfig_def rel_def example_host_def example_collationKey_def
        small_letter_def other_case_def)

subsection \<open>The timeout of a site\<close>

lemma SsrSite_timeout_error:
  "existsSync (files w) (the_path p) \<Longrightarrow> validateTimeout h p = Inl e \<Longrightarrow>
   SsrSite h app stk cfg ident addr p w = (Inl e, w)"
  by (simp add: SsrSite_def validateSiteExists_def Let_def)

text \<open>
  C6. \<open>validateTimeout\<close> throws exactly when the timeout, in seconds, is above 30
  with the \<open>edge\<close> flag and above 180 without it, and returns otherwise. The
  constructor calls it, after the test that the site exists: when it throws, the
  constructor throws that error and leaves the world as it was, so no file has
  been written, no construct made, no process run and no task deferred.
\<close>

theorem timeout_ceiling_checked_by_constructor:
  "validateTimeout h p =
     (if (if edge p = Some True then 30 else 180) <
         (case the_timeout p of Seconds n \<Rightarrow> n | Duration d \<Rightarrow> toSeconds h d)
      then Inl (TimeoutTooLong (edge p = Some True)) else Inr ()) \<and>
   (existsSync (files w) (the_path p) \<and> validateTimeout h p = Inl e \<longrightarrow>
      SsrSite h app stk cfg ident addr p w = (Inl e, w))"
proof (intro conjI impI)
  show "validateTimeout h p =
     (if (if edge p = Some True then 30 else 180) <
         (case the_timeout p of Seconds n \<Rightarrow> n | Duration d \<Rightarrow> toSeconds h d)
      then Inl (TimeoutTooLong (edge p = Some True)) else Inr ())"
    by (simp add: validateTimeout_def is_true_def Let_def)
next
  assume "existsSync (files w) (the_path p) \<and> validateTimeout h p = Inl e"
  then show "SsrSite h app stk cfg ident addr p w = (Inl e, w)"
    by (simp add: SsrSite_timeout_error)
qed

theorem timeout_ceiling_checked_by_constructor_witness:
  "SsrSite example_host deploy_app example_stack initBuildConfig ''web'' ''c8''
     (web_props\<lparr>timeout := Some (Seconds 31), edge := Some True\<rparr>) example_world =
     (Inl (TimeoutTooLong True), example_world) \<and>
   validateTimeout example_host (web_props\<lparr>timeout := Some (Seconds 30), edge := Some True\<rparr>) =
     Inr () \<and>
   validateTimeout example_host (web_props\<lparr>timeout := Some (Seconds 181)\<rparr>) =
     Inl (TimeoutTooLong False) \<and>
   validateTimeout example_host (web_props\<lparr>timeout := Some (Seconds 180)\<rparr>) = Inr () \<and>
   validateTimeout example_host (web_props\<lparr>timeout := Some (Duration ''1 minute'')\<rparr>) = Inr ()"
proof -
  have ex: "existsSync (files example_world) (the_path (web_props\<lparr>timeout := t, edge := e\<rparr>))"
    for t e
    by (simp add: existsSync_def example_world_def example_files_def web_props_def no_props_def
          the_path_def)
  note t = timeout_ceiling_checked_by_constructor
  from t[of example_host "web_props\<lparr>timeout := Some (Seconds 31), edge := Some True\<rparr>"
           example_world "TimeoutTooLong True" deploy_app example_stack initBuildConfig
           "''web''" "''c8''"] ex
  have 1: "SsrSite example_host deploy_app example_stack initBuildConfig ''web'' ''c8''
     (web_props\<lparr>timeout := Some (Seconds 31), edge := Some True\<rparr>) example_world =
     (Inl (TimeoutTooLong True), example_world)"
    by (simp add: the_timeout_def)
  from t[of example_host "web_props\<lparr>timeout := Some (Seconds 30), edge := Some True\<rparr>"]
  have 2: "validateTimeout example_host
             (web_props\<lparr>timeout := Some (Seconds 30), edge := Some True\<rparr>) = Inr ()"
    by (simp add: the_timeout_def)
  from t[of example_host "web_props\<lparr>timeout := Some (Seconds 181)\<rparr>"]
  have 3: "validateTimeout example_host (web_props\<lparr>timeout := Some (Seconds 181)\<rparr>) =
     Inl (TimeoutTooLong False)"
    by (simp add: the_timeout_def web_props_def no_props_def)
  from t[of example_host "web_props\<lparr>timeout := Some (Seconds 180)\<rparr>"]
  have 4: "validateTimeout example_host (web_props\<lparr>timeout := Some (Seconds 180)\<rparr>) = Inr ()"
    by (simp add: the_timeout_def web_props_def no_props_def)
  from t[of example_host "web_props\<lparr>timeout := Some (Duration ''1 minute'')\<rparr>"]
  have 5: "validateTimeout example_host (web_props\<lparr>timeout := Some (Duration ''1 minute'')\<rparr>) =
     Inr ()"
    by (simp add: the_timeout_def web_props_def no_props_def example_host_def)
  from 1 2 3 4 5 show ?thesis by blast
qed

text \<open>
  The statements of the constructor that follow \<open>validateTimeout\<close> throw as
  well. With the example host, a regional site with a timeout of 0 seconds passes
  \<open>validateTimeout\<close> and is rejected when the origin of the function URL is made;
  a site whose types directory does not exist fails in \<open>writeTypesFile\<close>; and
  with the methods of SsrSite itself, which return \<open>{}\<close>, a deployed site fails
  in \<open>grantServerS3Permissions\<close>.
\<close>

lemma constructor_throws_after_validation:
  "validateTimeout example_host (web_props\<lparr>timeout := Some (Seconds 0)\<rparr>) = Inr () \<and>
   fst (SsrSite example_host deploy_app example_stack initBuildConfig ''web'' ''c8''
          (web_props\<lparr>timeout := Some (Seconds 0)\<rparr>) example_world) =
     Inl (CdkProblem ''readTimeout'') \<and>
   fst (SsrSite example_host deploy_app example_stack (initBuildConfig\<lparr>typesPath := ''src''\<rparr>)
          ''web'' ''c8'' web_props example_world) =
     Inl (WriteFailed ''web/src/sst-env.d.ts'') \<and>
   fst (SsrSite (example_host\<lparr>createServerFunction := (\<lambda>e p. Inr None)\<rparr>) deploy_app
          example_stack initBuildConfig ''web'' ''c8'' web_props example_world) =
     Inl ServerHasNoRole \<and>
   (\<exists>site. fst (SsrSite example_host deploy_app example_stack initBuildConfig ''web'' ''c8''
                  web_props example_world) = Inr site)"
  by (simp add: SsrSite_def validateSiteExists_def validateTimeout_def writeTypesFile_def
        createS3Bucket_def createFunction_def grantServerS3Permissions_def
        createCloudFrontDistribution_def construct_def next_step_def emit_def Let_def
        example_host_def deploy_app_def dev_app_def example_stack_def example_world_def
        example_files_def web_props_def no_props_def initBuildConfig_def the_path_def
        the_timeout_def existsSync_def isDirectory_def path_join_def is_true_def devDeploy_def)

subsection \<open>The environment of the build command\<close>















subsection \<open>Sites that are not deployed\<close>

lemma writeTypesFile_effects:
  "effects (snd (writeTypesFile h p cfg w)) =
     effects w @
     (if existsSync (files w) (path_join (path_join (the_path p) (typesPath cfg)) ''sst-env.d.ts'') \<or>
         \<not> isDirectory (files w) (path_join (the_path p) (typesPath cfg))
      then []
      else [WriteFile (path_join (path_join (the_path p) (typesPath cfg)) ''sst-env.d.ts'')])"
  "deferredTasks (snd (writeTypesFile h p cfg w)) = deferredTasks w"
  by (simp_all add: writeTypesFile_def emit_def Let_def)

lemma SsrSite_not_deployed:
  assumes "mode app = ''dev''" and "\<not> is_true (devDeploy p)"
    and "SsrSite h app stk cfg ident addr p w = (Inr site, w')"
  shows "doNotDeploy site" and "site_props site = p"
    and "bucket site = None" and "s3Origin site = None" and "distribution site = None"
    and "serverLambdaForDev site = Some ''ServerFunction''"
    and "effects w' =
           effects (snd (writeTypesFile h p cfg w)) @
           [NewConstruct ''Role'' ''ServerFunctionRole'', NewConstruct ''SsrFunction'' ''ServerFunction'']"
    and "deferredTasks w' = deferredTasks w @ [BuildServerFunction ''ServerFunction'']"
proof -
  obtain r w1 where t: "writeTypesFile h p cfg w = (r, w1)" by (cases "writeTypesFile h p cfg w")
  from assms t have c:
    "r = Inr () \<and> cdkThrows h ''ServerFunctionRole'' p = None \<and>
     cdkThrows h ''ServerFunction'' p = None \<and>
     site = \<lparr>site_id = ident, node_addr = addr, site_app = app, site_stack = stk,
             site_props = p, doNotDeploy = True, buildConfig = cfg,
             bucket = None, s3Origin = None, distribution = None,
             serverLambdaForEdge = None, serverLambdaForRegional = None,
             serverLambdaForDev = Some ''ServerFunction'', serverUrlSigningFunction = None\<rparr> \<and>
     w' = (emit [NewConstruct ''SsrFunction'' ''ServerFunction'']
            (emit [NewConstruct ''Role'' ''ServerFunctionRole'']
               (w1\<lparr>sites := sites w1 @ [(stackName stk, ident, ''SsrSite'', p)]\<rparr>)))
          \<lparr>deferredTasks :=
             deferredTasks w1 @ [BuildServerFunction ''ServerFunction'']\<rparr>"
    by (auto simp: SsrSite_def Let_def createFunctionForDev_def next_step_def construct_def
          emit_def
        split: sum.splits option.splits if_splits)
  from c show "doNotDeploy site" "site_props site = p" "bucket site = None" "s3Origin site = None"
    "distribution site = None" "serverLambdaForDev site = Some ''ServerFunction''"
    by simp_all
  from t have w1: "w1 = snd (writeTypesFile h p cfg w)" by simp
  from c show "effects w' =
           effects (snd (writeTypesFile h p cfg w)) @
           [NewConstruct ''Role'' ''ServerFunctionRole'', NewConstruct ''SsrFunction'' ''ServerFunction'']"
    by (simp add: emit_def w1)
  from c show "deferredTasks w' = deferredTasks w @ [BuildServerFunction ''ServerFunction'']"
    by (simp add: emit_def w1 writeTypesFile_effects(2))
qed

lemma SsrSite_dev_returns:
  assumes "existsSync (files w) (the_path p)" and "validateTimeout h p = Inr ()"
    and "fst (writeTypesFile h p cfg w) = Inr ()"
    and "mode app = ''dev''" and "\<not> is_true (devDeploy p)"
    and "cdkThrows h ''ServerFunctionRole'' p = None" and "cdkThrows h ''ServerFunction'' p = None"
  shows "\<exists>site w'. SsrSite h app stk cfg ident addr p w = (Inr site, w')"
proof -
  obtain r w1 where t: "writeTypesFile h p cfg w = (r, w1)" by (cases "writeTypesFile h p cfg w")
  with assms(3) have "r = Inr ()" by simp
  with t assms show ?thesis
    by (simp add: SsrSite_def validateSiteExists_def Let_def createFunctionForDev_def
          next_step_def construct_def)
qed

lemma generateViteTypes_effects:
  "\<exists>es. effects (generateViteTypes p w) = effects w @ es \<and>
        filter runs_build_command es = [] \<and> filter makes_archive es = [] \<and>
        filter makes_upload_resource es = [] \<and> filter makes_cdn_behavior es = []"
  "deferredTasks (generateViteTypes p w) = deferredTasks w"
  by (auto simp: generateViteTypes_def Let_def emit_def split: option.splits)

lemma StaticSite_not_deployed:
  assumes "mode app = ''dev''" and "\<not> is_true (devDeploy p)"
    and "StaticSite h app stk ident addr p w = (Inr site, w')"
  shows "static_doNotDeploy site" and "static_props site = p"
    and "static_bucket site = None" and "static_distribution site = None"
    and "effects w' = effects (generateViteTypes p w)"
    and "deferredTasks w' = deferredTasks w"
  using assms
  by (auto simp: StaticSite_def Let_def generateViteTypes_effects(2))

text \<open>
  C1, as amended. Let the application be in mode \<open>dev\<close> and \<open>dev.deploy\<close> not
  true, and let the constructor of SsrSite or of StaticSite return a site. Then
  the site is not to be deployed, and it has no bucket, origin or distribution.
  The constructor has run no build command and no archiver, and has made no asset,
  bucket, uploader, deployment resource, distribution or behaviour. That of
  SsrSite has at most written the types file, and made the role and the
  placeholder function; the one task it defers builds that placeholder function
  and does nothing else. That of StaticSite has at most written the types file,
  and defers no task. The getter \<open>url\<close> returns \<open>dev.url\<close>, undefined when that
  is unset; the variable \<open>url\<close> of the function binding is plain and has the
  value \<open>dev.url\<close>, or \<open>localhost\<close> when that is unset.
\<close>

theorem dev_site_is_not_deployed:
  assumes "mode app = ''dev''" and "\<not> is_true (devDeploy p)"
  shows
    "(SsrSite h app stk cfg ident addr p w = (Inr site, w') \<longrightarrow>
       doNotDeploy site \<and> bucket site = None \<and> s3Origin site = None \<and> distribution site = None \<and>
       effects w' =
         effects (snd (writeTypesFile h p cfg w)) @
         [NewConstruct ''Role'' ''ServerFunctionRole'',
          NewConstruct ''SsrFunction'' ''ServerFunction''] \<and>
       (\<exists>es. effects w' = effects w @ es \<and>
             filter runs_build_command es = [] \<and> filter makes_archive es = [] \<and>
             filter makes_upload_resource es = [] \<and> filter makes_cdn_behavior es = []) \<and>
       deferredTasks w' = deferredTasks w @ [BuildServerFunction ''ServerFunction''] \<and>
       (\<forall>w0. run_task h (BuildServerFunction ''ServerFunction'') w0 =
               Some (Inr (), w0\<lparr>effects := effects w0 @ [BuildFunction ''ServerFunction'']\<rparr>)) \<and>
       url site = devUrl p \<and>
       variables (getFunctionBinding h site) =
         [(''url'', \<lparr>var_type = ''plain'',
                    var_value = Some (case devUrl p of None \<Rightarrow> ''localhost'' | Some u \<Rightarrow> u)\<rparr>)]) \<and>
     (StaticSite h app stk ident addr p w = (Inr ssite, w'') \<longrightarrow>
       static_doNotDeploy ssite \<and> static_bucket ssite = None \<and>
       static_distribution ssite = None \<and>
       (\<exists>es. effects w'' = effects w @ es \<and>
             filter runs_build_command es = [] \<and> filter makes_archive es = [] \<and>
             filter makes_upload_resource es = [] \<and> filter makes_cdn_behavior es = []) \<and>
       deferredTasks w'' = deferredTasks w \<and>
       static_url ssite = devUrl p \<and>
       variables (static_getFunctionBinding h ssite) =
         [(''url'', \<lparr>var_type = ''plain'',
                    var_value = Some (case devUrl p of None \<Rightarrow> ''localhost'' | Some u \<Rightarrow> u)\<rparr>)])"
proof (intro conjI impI)
  assume c: "SsrSite h app stk cfg ident addr p w = (Inr site, w')"
  note f = SsrSite_not_deployed[OF assms c]
  let ?tf = "path_join (path_join (the_path p) (typesPath cfg)) ''sst-env.d.ts''"
  let ?es = "(if existsSync (files w) ?tf \<or>
                 \<not> isDirectory (files w) (path_join (the_path p) (typesPath cfg))
              then [] else [WriteFile ?tf]) @
             [NewConstruct ''Role'' ''ServerFunctionRole'',
              NewConstruct ''SsrFunction'' ''ServerFunction'']"
  show "doNotDeploy site" "bucket site = None" "s3Origin site = None" "distribution site = None"
    by (rule f)+
  show "effects w' =
         effects (snd (writeTypesFile h p cfg w)) @
         [NewConstruct ''Role'' ''ServerFunctionRole'',
          NewConstruct ''SsrFunction'' ''ServerFunction'']"
    by (rule f)
  have "effects w' = effects w @ ?es"
    by (simp add: f(7) writeTypesFile_effects)
  moreover have "filter runs_build_command ?es = []" "filter makes_archive ?es = []"
    "filter makes_upload_resource ?es = []" "filter makes_cdn_behavior ?es = []"
    by simp_all
  ultimately show "\<exists>es. effects w' = effects w @ es \<and>
           filter runs_build_command es = [] \<and> filter makes_archive es = [] \<and>
           filter makes_upload_resource es = [] \<and> filter makes_cdn_behavior es = []"
    by blast
  show "deferredTasks w' = deferredTasks w @ [BuildServerFunction ''ServerFunction'']"
    by (rule f)
  show "\<forall>w0. run_task h (BuildServerFunction ''ServerFunction'') w0 =
             Some (Inr (), w0\<lparr>effects := effects w0 @ [BuildFunction ''ServerFunction'']\<rparr>)"
    by (simp add: run_task_def emit_def)
  show "url site = devUrl p" by (simp add: url_def f(1,2))
  show "variables (getFunctionBinding h site) =
       [(''url'', \<lparr>var_type = ''plain'',
                  var_value = Some (case devUrl p of None \<Rightarrow> ''localhost'' | Some u \<Rightarrow> u)\<rparr>)]"
    by (simp add: getFunctionBinding_def f(1,2))
next
  assume c: "StaticSite h app stk ident addr p w = (Inr ssite, w'')"
  note f = StaticSite_not_deployed[OF assms c]
  show "static_doNotDeploy ssite" "static_bucket ssite = None" "static_distribution ssite = None"
    by (rule f)+
  show "\<exists>es. effects w'' = effects w @ es \<and>
           filter runs_build_command es = [] \<and> filter makes_archive es = [] \<and>
           filter makes_upload_resource es = [] \<and> filter makes_cdn_behavior es = []"
    using generateViteTypes_effects(1)[of p w] by (simp add: f(5))
  show "deferredTasks w'' = deferredTasks w" by (rule f)
  show "static_url ssite = devUrl p" by (simp add: static_url_def f(1,2))
  show "variables (static_getFunctionBinding h ssite) =
       [(''url'', \<lparr>var_type = ''plain'',
                  var_value = Some (case devUrl p of None \<Rightarrow> ''localhost'' | Some u \<Rightarrow> u)\<rparr>)]"
    by (simp add: static_getFunctionBinding_def f(1,2))
qed

lemma dev_examples:
  "mode dev_app = ''dev''"
  "\<not> is_true (devDeploy dev_props_with_url)" "\<not> is_true (devDeploy dev_props_without_url)"
  "devUrl dev_props_with_url = Some ''http://localhost:3000''"
  "devUrl dev_props_without_url = None"
  "existsSync (files example_world) (the_path dev_props_with_url)"
  "existsSync (files example_world) (the_path dev_props_without_url)"
  "validateTimeout example_host dev_props_with_url = Inr ()"
  "validateTimeout example_host dev_props_without_url = Inr ()"
  "fst (writeTypesFile example_host dev_props_with_url initBuildConfig example_world) = Inr ()"
  "fst (writeTypesFile example_host dev_props_without_url initBuildConfig example_world) = Inr ()"
  "cdkThrows example_host ''ServerFunctionRole'' p = None"
  "cdkThrows example_host ''ServerFunction'' p = None"
  by (simp_all add: dev_app_def is_true_def devDeploy_def devUrl_def dev_props_with_url_def
        dev_props_without_url_def env_props_def web_props_def no_props_def existsSync_def
        example_world_def example_files_def the_path_def validateTimeout_def the_timeout_def
        example_host_def writeTypesFile_def initBuildConfig_def path_join_def isDirectory_def
        Let_def)

theorem dev_site_is_not_deployed_witness:
  "(\<exists>site w'.
      SsrSite example_host dev_app example_stack initBuildConfig ''web'' ''c8''
        dev_props_with_url example_world = (Inr site, w') \<and>
      distribution site = None \<and>
      filter runs_build_command (effects w') = [] \<and>
      deferredTasks w' = [BuildServerFunction ''ServerFunction''] \<and>
      url site = Some ''http://localhost:3000'' \<and>
      variables (getFunctionBinding example_host site) =
        [(''url'', \<lparr>var_type = ''plain'', var_value = Some ''http://localhost:3000''\<rparr>)]) \<and>
   (\<exists>site w'.
      SsrSite example_host dev_app example_stack initBuildConfig ''web'' ''c8''
        dev_props_without_url example_world = (Inr site, w') \<and>
      variables (getFunctionBinding example_host site) =
        [(''url'', \<lparr>var_type = ''plain'', var_value = Some ''localhost''\<rparr>)]) \<and>
   (\<exists>site w'.
      StaticSite example_host dev_app example_stack ''web'' ''c8''
        dev_props_without_url example_world = (Inr site, w') \<and>
      static_distribution site = None \<and> deferredTasks w' = [] \<and>
      variables (static_getFunctionBinding example_host site) =
        [(''url'', \<lparr>var_type = ''plain'', var_value = Some ''localhost''\<rparr>)])"
proof -
  obtain s1 w1 where 1:
    "SsrSite example_host dev_app example_stack initBuildConfig ''web'' ''c8''
       dev_props_with_url example_world = (Inr s1, w1)"
    using SsrSite_dev_returns[OF dev_examples(6) dev_examples(8) dev_examples(10)
            dev_examples(1) dev_examples(2) dev_examples(12) dev_examples(13)]
    by blast
  obtain s2 w2 where 2:
    "SsrSite example_host dev_app example_stack initBuildConfig ''web'' ''c8''
       dev_props_without_url example_world = (Inr s2, w2)"
    using SsrSite_dev_returns[OF dev_examples(7) dev_examples(9) dev_examples(11)
            dev_examples(1) dev_examples(3) dev_examples(12) dev_examples(13)]
    by blast
  obtain s3 w3 where 3:
    "StaticSite example_host dev_app example_stack ''web'' ''c8''
       dev_props_without_url example_world = (Inr s3, w3)"
    by (simp add: StaticSite_def Let_def dev_examples example_stack_def)
  have e: "effects example_world = []" "deferredTasks example_world = []"
    by (simp_all add: example_world_def)
  note t = dev_site_is_not_deployed
  from t[OF dev_examples(1) dev_examples(2), THEN conjunct1, THEN mp, OF 1]
  have a: "distribution s1 = None \<and>
      filter runs_build_command (effects w1) = [] \<and>
      deferredTasks w1 = [BuildServerFunction ''ServerFunction''] \<and>
      url s1 = Some ''http://localhost:3000'' \<and>
      variables (getFunctionBinding example_host s1) =
        [(''url'', \<lparr>var_type = ''plain'', var_value = Some ''http://localhost:3000''\<rparr>)]"
    by (auto simp: e dev_examples)
  from t[OF dev_examples(1) dev_examples(3), THEN conjunct1, THEN mp, OF 2]
  have b: "variables (getFunctionBinding example_host s2) =
        [(''url'', \<lparr>var_type = ''plain'', var_value = Some ''localhost''\<rparr>)]"
    by (simp add: dev_examples)
  from t[OF dev_examples(1) dev_examples(3), THEN conjunct2, THEN mp, OF 3]
  have c: "static_distribution s3 = None \<and> deferredTasks w3 = [] \<and>
      variables (static_getFunctionBinding example_host s3) =
        [(''url'', \<lparr>var_type = ''plain'', var_value = Some ''localhost''\<rparr>)]"
    by (simp add: e dev_examples)
  from 1 2 3 a b c show ?thesis by blast
qed

text \<open>
  C1 as stated fails for the getter \<open>url\<close>: for a site in mode \<open>dev\<close> with
  \<open>dev.deploy\<close> false and no \<open>dev.url\<close> it returns undefined, not \<open>localhost\<close>.
\<close>

theorem dev_site_url_undefined_counterexample:
  "map_sum id url
     (fst (SsrSite example_host dev_app example_stack initBuildConfig ''web'' ''c8''
             dev_props_without_url example_world)) = Inr None"
proof -
  obtain s2 w2 where 2:
    "SsrSite example_host dev_app example_stack initBuildConfig ''web'' ''c8''
       dev_props_without_url example_world = (Inr s2, w2)"
    using SsrSite_dev_returns[OF dev_examples(7) dev_examples(9) dev_examples(11)
            dev_examples(1) dev_examples(3) dev_examples(12) dev_examples(13)]
    by blast
  from SsrSite_not_deployed(1,2)[OF dev_examples(1) dev_examples(3) 2]
  have "url s2 = None" by (simp add: url_def dev_examples)
  with 2 show ?thesis by simp
qed

subsection \<open>The replace values of the deployment\<close>

text \<open>
  C9, as amended. For every variable of the environment whose value is an
  unresolved token, the replace values of SsrSite have a rule that replaces
  \<open>{{ KEY }}\<close> by the value in \<open>**/*.html\<close>, one for \<open>**/*.js\<close> and one for
  \<open>**/*.json\<close>, and they are these three rules for each such variable, in the
  order of the variables. Those of StaticSite are the rules of
  \<open>props.replaceValues\<close>, followed by the rule for \<open>**/*.html\<close> and the one for
  \<open>**/*.js\<close> for each such variable, in the order of the variables; so every
  rule they have for \<open>**/*.json\<close> is one of \<open>props.replaceValues\<close>. StaticSite
  leaves the list it returns in \<open>props.replaceValues\<close>, when that was given. The
  deployment resource is given these lists as its \<open>ReplaceValues\<close>.
\<close>

theorem replace_values_cover_unresolved_variables:
  "(environment p = Some env \<and> (key, v) \<in> set env \<and> isUnresolved h v \<longrightarrow>
      \<lparr>rv_files = ''**/*.html'', rv_search = ''{{ '' @ key @ '' }}'', rv_replace = v\<rparr>
        \<in> set (getS3ContentReplaceValues h p) \<and>
      \<lparr>rv_files = ''**/*.js'', rv_search = ''{{ '' @ key @ '' }}'', rv_replace = v\<rparr>
        \<in> set (getS3ContentReplaceValues h p) \<and>
      \<lparr>rv_files = ''**/*.json'', rv_search = ''{{ '' @ key @ '' }}'', rv_replace = v\<rparr>
        \<in> set (getS3ContentReplaceValues h p) \<and>
      \<lparr>rv_files = ''**/*.html'', rv_search = ''{{ '' @ key @ '' }}'', rv_replace = v\<rparr>
        \<in> set (fst (static_getS3ContentReplaceValues h p)) \<and>
      \<lparr>rv_files = ''**/*.js'', rv_search = ''{{ '' @ key @ '' }}'', rv_replace = v\<rparr>
        \<in> set (fst (static_getS3ContentReplaceValues h p))) \<and>
   (r \<in> set (fst (static_getS3ContentReplaceValues h p)) \<and> rv_files r = ''**/*.json'' \<longrightarrow>
      r \<in> set (case replaceValues p of None \<Rightarrow> [] | Some rs \<Rightarrow> rs)) \<and>
   getS3ContentReplaceValues h p =
     concat (map (\<lambda>(key, v).
                    [\<lparr>rv_files = ''**/*.html'', rv_search = ''{{ '' @ key @ '' }}'', rv_replace = v\<rparr>,
                     \<lparr>rv_files = ''**/*.js'', rv_search = ''{{ '' @ key @ '' }}'', rv_replace = v\<rparr>,
                     \<lparr>rv_files = ''**/*.json'', rv_search = ''{{ '' @ key @ '' }}'', rv_replace = v\<rparr>])
                 (filter (\<lambda>(key, v). isUnresolved h v)
                    (case environment p of None \<Rightarrow> [] | Some e \<Rightarrow> e))) \<and>
   fst (static_getS3ContentReplaceValues h p) =
     (case replaceValues p of None \<Rightarrow> [] | Some rs \<Rightarrow> rs) @
     concat (map (\<lambda>(key, v).
                    [\<lparr>rv_files = ''**/*.html'', rv_search = ''{{ '' @ key @ '' }}'', rv_replace = v\<rparr>,
                     \<lparr>rv_files = ''**/*.js'', rv_search = ''{{ '' @ key @ '' }}'', rv_replace = v\<rparr>])
                 (filter (\<lambda>(key, v). isUnresolved h v)
                    (case environment p of None \<Rightarrow> [] | Some e \<Rightarrow> e))) \<and>
   replaceValues (snd (static_getS3ContentReplaceValues h p)) =
     (case replaceValues p of
        None \<Rightarrow> None
      | Some rs \<Rightarrow> Some (fst (static_getS3ContentReplaceValues h p))) \<and>
   S3Deployment (map asset_id assets) None (map fileOptionArgs fo) (getS3ContentReplaceValues h p)
     \<in> set (effects (snd (createS3Deployment h (site\<lparr>site_props := p\<rparr>) assets fo w))) \<and>
   S3Deployment (map asset_id assets) (map_option asset_id names)
       (map fileOptionArgs (static_fileOptions p)) (fst (static_getS3ContentReplaceValues h p))
     \<in> set (effects (snd (static_createS3Deployment h (ssite\<lparr>static_props := p\<rparr>) assets names w)))"
proof (intro conjI impI)
  assume a: "environment p = Some env \<and> (key, v) \<in> set env \<and> isUnresolved h v"
  then show
    "\<lparr>rv_files = ''**/*.html'', rv_search = ''{{ '' @ key @ '' }}'', rv_replace = v\<rparr>
       \<in> set (getS3ContentReplaceValues h p)"
    "\<lparr>rv_files = ''**/*.js'', rv_search = ''{{ '' @ key @ '' }}'', rv_replace = v\<rparr>
       \<in> set (getS3ContentReplaceValues h p)"
    "\<lparr>rv_files = ''**/*.json'', rv_search = ''{{ '' @ key @ '' }}'', rv_replace = v\<rparr>
       \<in> set (getS3ContentReplaceValues h p)"
    by (force simp: getS3ContentReplaceValues_def placeholder_def)+
  from a show
    "\<lparr>rv_files = ''**/*.html'', rv_search = ''{{ '' @ key @ '' }}'', rv_replace = v\<rparr>
       \<in> set (fst (static_getS3ContentReplaceValues h p))"
    "\<lparr>rv_files = ''**/*.js'', rv_search = ''{{ '' @ key @ '' }}'', rv_replace = v\<rparr>
       \<in> set (fst (static_getS3ContentReplaceValues h p))"
    by (force simp: static_getS3ContentReplaceValues_def placeholder_def Let_def)+
next
  assume "r \<in> set (fst (static_getS3ContentReplaceValues h p)) \<and> rv_files r = ''**/*.json''"
  then show "r \<in> set (case replaceValues p of None \<Rightarrow> [] | Some rs \<Rightarrow> rs)"
    by (auto simp: static_getS3ContentReplaceValues_def Let_def)
next
  show "getS3ContentReplaceValues h p =
     concat (map (\<lambda>(key, v).
                    [\<lparr>rv_files = ''**/*.html'', rv_search = ''{{ '' @ key @ '' }}'', rv_replace = v\<rparr>,
                     \<lparr>rv_files = ''**/*.js'', rv_search = ''{{ '' @ key @ '' }}'', rv_replace = v\<rparr>,
                     \<lparr>rv_files = ''**/*.json'', rv_search = ''{{ '' @ key @ '' }}'', rv_replace = v\<rparr>])
                 (filter (\<lambda>(key, v). isUnresolved h v)
                    (case environment p of None \<Rightarrow> [] | Some e \<Rightarrow> e)))"
    by (simp add: getS3ContentReplaceValues_def placeholder_def)
next
  show "fst (static_getS3ContentReplaceValues h p) =
     (case replaceValues p of None \<Rightarrow> [] | Some rs \<Rightarrow> rs) @
     concat (map (\<lambda>(key, v).
                    [\<lparr>rv_files = ''**/*.html'', rv_search = ''{{ '' @ key @ '' }}'', rv_replace = v\<rparr>,
                     \<lparr>rv_files = ''**/*.js'', rv_search = ''{{ '' @ key @ '' }}'', rv_replace = v\<rparr>])
                 (filter (\<lambda>(key, v). isUnresolved h v)
                    (case environment p of None \<Rightarrow> [] | Some e \<Rightarrow> e)))"
    by (simp add: static_getS3ContentReplaceValues_def placeholder_def Let_def)
next
  show "replaceValues (snd (static_getS3ContentReplaceValues h p)) =
     (case replaceValues p of
        None \<Rightarrow> None
      | Some rs \<Rightarrow> Some (fst (static_getS3ContentReplaceValues h p)))"
    by (simp add: static_getS3ContentReplaceValues_def Let_def split: option.splits)
next
  show "S3Deployment (map asset_id assets) None (map fileOptionArgs fo)
          (getS3ContentReplaceValues h p)
     \<in> set (effects (snd (createS3Deployment h (site\<lparr>site_props := p\<rparr>) assets fo w)))"
    by (simp add: createS3Deployment_def emit_def)
next
  show "S3Deployment (map asset_id assets) (map_option asset_id names)
       (map fileOptionArgs (static_fileOptions p)) (fst (static_getS3ContentReplaceValues h p))
     \<in> set (effects (snd (static_createS3Deployment h (ssite\<lparr>static_props := p\<rparr>) assets names w)))"
    by (simp add: static_createS3Deployment_def emit_def split_beta)
qed

theorem replace_values_cover_unresolved_variables_witness:
  "\<lparr>rv_files = ''**/*.json'', rv_search = ''{{ API_URL }}'', rv_replace = ''${Token[TOKEN.123]}''\<rparr>
     \<in> set (getS3ContentReplaceValues example_host env_props) \<and>
   \<lparr>rv_files = ''**/*.js'', rv_search = ''{{ API_URL }}'', rv_replace = ''${Token[TOKEN.123]}''\<rparr>
     \<in> set (fst (static_getS3ContentReplaceValues example_host env_props)) \<and>
   \<lparr>rv_files = ''**/*.json'', rv_search = ''{{ API_URL }}'', rv_replace = ''${Token[TOKEN.123]}''\<rparr>
     \<notin> set (fst (static_getS3ContentReplaceValues example_host env_props)) \<and>
   fst (static_getS3ContentReplaceValues example_host given_props) =
     [\<lparr>rv_files = ''**/*.json'', rv_search = ''__VERSION__'', rv_replace = ''1.2.3''\<rparr>,
      \<lparr>rv_files = ''**/*.html'', rv_search = ''{{ API_URL }}'', rv_replace = ''${Token[TOKEN.123]}''\<rparr>,
      \<lparr>rv_files = ''**/*.js'', rv_search = ''{{ API_URL }}'', rv_replace = ''${Token[TOKEN.123]}''\<rparr>]"
proof -
  have e: "environment env_props =
             Some [(''API_URL'', ''${Token[TOKEN.123]}''), (''STAGE'', ''dev'')]"
    "replaceValues env_props = None"
    "environment given_props =
             Some [(''API_URL'', ''${Token[TOKEN.123]}''), (''STAGE'', ''dev'')]"
    "replaceValues given_props =
       Some [\<lparr>rv_files = ''**/*.json'', rv_search = ''__VERSION__'', rv_replace = ''1.2.3''\<rparr>]"
    by (simp_all add: given_props_def env_props_def web_props_def no_props_def)
  have u: "isUnresolved example_host ''${Token[TOKEN.123]}''" "\<not> isUnresolved example_host ''dev''"
    by (simp_all add: example_host_def)
  note t = replace_values_cover_unresolved_variables
  from t[where p = env_props and h = example_host and key = "''API_URL''"
           and v = "''${Token[TOKEN.123]}''"
           and env = "[(''API_URL'', ''${Token[TOKEN.123]}''), (''STAGE'', ''dev'')]",
         THEN conjunct1] e u
  have 1: "\<lparr>rv_files = ''**/*.json'', rv_search = ''{{ API_URL }}'', rv_replace = ''${Token[TOKEN.123]}''\<rparr>
     \<in> set (getS3ContentReplaceValues example_host env_props) \<and>
   \<lparr>rv_files = ''**/*.js'', rv_search = ''{{ API_URL }}'', rv_replace = ''${Token[TOKEN.123]}''\<rparr>
     \<in> set (fst (static_getS3ContentReplaceValues example_host env_props))"
    by simp
  from t[where p = env_props and h = example_host
           and r = "\<lparr>rv_files = ''**/*.json'', rv_search = ''{{ API_URL }}'',
                     rv_replace = ''${Token[TOKEN.123]}''\<rparr>",
         THEN conjunct2, THEN conjunct1] e
  have 2: "\<lparr>rv_files = ''**/*.json'', rv_search = ''{{ API_URL }}'', rv_replace = ''${Token[TOKEN.123]}''\<rparr>
     \<notin> set (fst (static_getS3ContentReplaceValues example_host env_props))"
    by auto
  from t[where p = given_props and h = example_host,
         THEN conjunct2, THEN conjunct2, THEN conjunct2, THEN conjunct1] e u
  have 3: "fst (static_getS3ContentReplaceValues example_host given_props) =
     [\<lparr>rv_files = ''**/*.json'', rv_search = ''__VERSION__'', rv_replace = ''1.2.3''\<rparr>,
      \<lparr>rv_files = ''**/*.html'', rv_search = ''{{ API_URL }}'', rv_replace = ''${Token[TOKEN.123]}''\<rparr>,
      \<lparr>rv_files = ''**/*.js'', rv_search = ''{{ API_URL }}'', rv_replace = ''${Token[TOKEN.123]}''\<rparr>]"
    by simp
  from 1 2 3 show ?thesis by blast
qed

text \<open>
  C9 as stated fails for StaticSite. At a site whose variable \<open>API_URL\<close> is an
  unresolved token, its replace values are the rule for \<open>**/*.html\<close> and the rule
  for \<open>**/*.js\<close>, and none for \<open>**/*.json\<close>; those of SsrSite are all three.
\<close>

theorem static_site_replace_values_lack_json_counterexample:
  "fst (static_getS3ContentReplaceValues example_host env_props) =
     [\<lparr>rv_files = ''**/*.html'', rv_search = ''{{ API_URL }}'', rv_replace = ''${Token[TOKEN.123]}''\<rparr>,
      \<lparr>rv_files = ''**/*.js'', rv_search = ''{{ API_URL }}'', rv_replace = ''${Token[TOKEN.123]}''\<rparr>] \<and>
   getS3ContentReplaceValues example_host env_props =
     [\<lparr>rv_files = ''**/*.html'', rv_search = ''{{ API_URL }}'', rv_replace = ''${Token[TOKEN.123]}''\<rparr>,
      \<lparr>rv_files = ''**/*.js'', rv_search = ''{{ API_URL }}'', rv_replace = ''${Token[TOKEN.123]}''\<rparr>,
      \<lparr>rv_files = ''**/*.json'', rv_search = ''{{ API_URL }}'', rv_replace = ''${Token[TOKEN.123]}''\<rparr>]"
  by (simp add: getS3ContentReplaceValues_def static_getS3ContentReplaceValues_def env_props_def
        web_props_def no_props_def example_host_def placeholder_def Let_def)

end
